theory Spec2Isabelle
  imports Complex_Main
begin

section \<open>pygrib: a shallow embedding of \<^verbatim>\<open>pygrib.pyx\<close>\<close>

text \<open>
  The module wraps the GRIB API decoder: a message exposes its keys like a dictionary
  (\<^verbatim>\<open>gribmessage.__getitem__\<close>, \<^verbatim>\<open>__setitem__\<close>), reshapes and masks the
  \<^verbatim>\<open>values\<close> array, expands reduced grids (\<^verbatim>\<open>_redtoreg\<close>) and computes the
  latitudes and longitudes of the grid (\<^verbatim>\<open>latlons\<close>).

  Conventions of the embedding:
  \<^item> a Python exception is a value of type \<open>error\<close>, and a function that may raise
    returns \<open>error + 'a\<close> with \<open>Inl\<close> for the exception;
  \<^item> a Python integer is an \<open>int\<close>; a C \<^verbatim>\<open>long\<close> has 64 bits and a C \<^verbatim>\<open>int\<close> 32, and
    a number outside that range where the source holds it in such a variable is an error;
  \<^item> the arithmetic of \<^verbatim>\<open>_redtoreg\<close> on C doubles is that of the type \<open>double\<close> below,
    with infinities, NaN and rounding; a Python float and the elements of a float array,
    which the rest of the module moves without arithmetic, are \<open>real\<close>s;
  \<^item> a read through a C pointer outside the data buffer gives what the memory of the run
    holds there, which is a parameter, or the error \<open>MemoryFault\<close> when it holds nothing;
  \<^item> a local variable that no statement has assigned yet holds \<^verbatim>\<open>None\<close>, as in the
    Cython the module is written for, and there is memory for every array that is
    allocated;
  \<^item> a leading underscore of a source name is dropped (\<^verbatim>\<open>_redtoreg\<close> is
    \<open>redtoreg\<close>), since an Isabelle name cannot start with one.
\<close>

subsection \<open>Exceptions\<close>

datatype error =
    RuntimeError string
  | KeyError string
  | ValueError string
  | TypeError string
  | AttributeError string
  | UnboundLocalError string
  | ZeroDivisionError string
  | OverflowError string
  | RecursionError
  | MemoryFault  \<comment> \<open>a C pointer read outside its buffer, or at the wrong element type\<close>
  | Unmodelled string  \<comment> \<open>an input on which the embedding does not follow the library\<close>

definition bnd :: "error + 'a \<Rightarrow> ('a \<Rightarrow> error + 'b) \<Rightarrow> error + 'b" where
  "bnd r f = (case r of Inl e \<Rightarrow> Inl e | Inr x \<Rightarrow> f x)"

subsection \<open>Scan order of a two-dimensional array\<close>

text \<open>
  A two-dimensional array is the list of its rows. The three slice assignments of
  \<^verbatim>\<open>_reshape_mask\<close> and \<^verbatim>\<open>_unshape_mask\<close> read a copy (\<^verbatim>\<open>datsave\<close>) and write
  the whole array, so each is a function on the list of rows.
\<close>

definition flip_rows :: "'a list list \<Rightarrow> 'a list list" where
  \<comment> \<open>\<^verbatim>\<open>datarr[:,:] = datsave[::-1,:]\<close> and \<^verbatim>\<open>datarr[::-1,:] = datsave[:,:]\<close>\<close>
  "flip_rows rows = rev rows"

definition flip_columns :: "'a list list \<Rightarrow> 'a list list" where
  \<comment> \<open>\<^verbatim>\<open>datarr[:,:] = datsave[:,::-1]\<close> and \<^verbatim>\<open>datarr[:,::-1] = datsave[:,:]\<close>\<close>
  "flip_columns rows = map rev rows"

definition flip_odd_rows :: "'a list list \<Rightarrow> 'a list list" where
  \<comment> \<open>\<^verbatim>\<open>datarr[1::2,:] = datsave[1::2,::-1]\<close> and \<^verbatim>\<open>datarr[1::2,::-1] = datsave[1::2,:]\<close>\<close>
  "flip_odd_rows rows =
     map (\<lambda>(j, row). if odd j then rev row else row) (zip [0..<length rows] rows)"

definition reshape_scan :: "bool \<Rightarrow> bool \<Rightarrow> bool \<Rightarrow> 'a list list \<Rightarrow> 'a list list" where
  \<comment> \<open>the scan-mode block of \<^verbatim>\<open>_reshape_mask\<close> (decoding), the three flags already read\<close>
  "reshape_scan jScansPositively iScansNegatively alternativeRowScanning datarr =
     (let datarr = (if \<not> jScansPositively then flip_rows datarr else datarr);
          datarr = (if iScansNegatively then flip_columns datarr else datarr);
          datarr = (if alternativeRowScanning then flip_odd_rows datarr else datarr)
      in datarr)"

definition unshape_scan :: "bool \<Rightarrow> bool \<Rightarrow> bool \<Rightarrow> 'a list list \<Rightarrow> 'a list list" where
  \<comment> \<open>the scan-mode block of \<^verbatim>\<open>_unshape_mask\<close> (encoding), the three flags already read\<close>
  "unshape_scan jScansPositively iScansNegatively alternativeRowScanning datarr =
     (let datarr = (if \<not> jScansPositively then flip_rows datarr else datarr);
          datarr = (if iScansNegatively then flip_columns datarr else datarr);
          datarr = (if alternativeRowScanning then flip_odd_rows datarr else datarr)
      in datarr)"

subsection \<open>C doubles\<close>

text \<open>
  A C \<^verbatim>\<open>double\<close> is a finite number, an infinity or NaN; \<open>Finite 0\<close> stands for both
  zeros, which compare equal. The arithmetic is that of IEEE 754: an operation on finite
  operands gives the exact result, rounded; the rounding is the parameter \<open>rnd\<close>, which
  maps a real number to the double it is rounded to (an infinity when it overflows). NaN
  is the result of an operation on NaN, of \<open>\<infinity> - \<infinity>\<close> and of \<open>0 * \<infinity>\<close>, and compares
  unequal to everything.
\<close>

datatype double = is_finite: Finite (the_real: real) | PInf | NInf | NaN

definition d_sgn :: "double \<Rightarrow> int" where
  "d_sgn a =
     (case a of
        Finite x \<Rightarrow> (if x < 0 then -1 else if x = 0 then 0 else 1)
      | PInf \<Rightarrow> 1 | NInf \<Rightarrow> -1 | NaN \<Rightarrow> 0)"

definition d_inf :: "int \<Rightarrow> double" where
  \<comment> \<open>the infinity of a sign; NaN for no sign\<close>
  "d_inf s = (if s = 0 then NaN else if 0 < s then PInf else NInf)"

fun d_neg :: "double \<Rightarrow> double" where
  "d_neg (Finite x) = Finite (- x)"
| "d_neg PInf = NInf"
| "d_neg NInf = PInf"
| "d_neg NaN = NaN"

fun d_add :: "(real \<Rightarrow> double) \<Rightarrow> double \<Rightarrow> double \<Rightarrow> double" where
  "d_add rnd (Finite x) (Finite y) = rnd (x + y)"
| "d_add rnd NaN b = NaN"
| "d_add rnd a NaN = NaN"
| "d_add rnd PInf NInf = NaN"
| "d_add rnd NInf PInf = NaN"
| "d_add rnd PInf b = PInf"
| "d_add rnd a PInf = PInf"
| "d_add rnd NInf b = NInf"
| "d_add rnd a NInf = NInf"

definition d_sub :: "(real \<Rightarrow> double) \<Rightarrow> double \<Rightarrow> double \<Rightarrow> double" where
  "d_sub rnd a b = d_add rnd a (d_neg b)"

fun d_mul :: "(real \<Rightarrow> double) \<Rightarrow> double \<Rightarrow> double \<Rightarrow> double" where
  "d_mul rnd (Finite x) (Finite y) = rnd (x * y)"
| "d_mul rnd NaN b = NaN"
| "d_mul rnd a NaN = NaN"
| "d_mul rnd a b = d_inf (d_sgn a * d_sgn b)"

fun d_div :: "(real \<Rightarrow> double) \<Rightarrow> double \<Rightarrow> double \<Rightarrow> double" where
  "d_div rnd (Finite x) (Finite y) = (if y = 0 then d_inf (d_sgn (Finite x)) else rnd (x / y))"
| "d_div rnd NaN b = NaN"
| "d_div rnd a NaN = NaN"
| "d_div rnd (Finite x) b = Finite 0"
| "d_div rnd a (Finite y) = d_inf (d_sgn a * (if y < 0 then -1 else 1))"
| "d_div rnd a b = NaN"

fun d_eq :: "double \<Rightarrow> double \<Rightarrow> bool" where
  \<comment> \<open>\<^verbatim>\<open>a == b\<close>\<close>
  "d_eq (Finite x) (Finite y) = (x = y)"
| "d_eq PInf PInf = True"
| "d_eq NInf NInf = True"
| "d_eq a b = False"

fun d_lt :: "double \<Rightarrow> double \<Rightarrow> bool" where
  \<comment> \<open>\<^verbatim>\<open>a < b\<close>\<close>
  "d_lt (Finite x) (Finite y) = (x < y)"
| "d_lt NaN b = False"
| "d_lt a NaN = False"
| "d_lt a NInf = False"
| "d_lt PInf b = False"
| "d_lt a b = True"

definition fits_long :: "int \<Rightarrow> bool" where
  \<comment> \<open>the number is in the range of a C \<^verbatim>\<open>long\<close>\<close>
  "fits_long n = (- (2 ^ 63) \<le> n \<and> n < 2 ^ 63)"

definition fits_int :: "int \<Rightarrow> bool" where
  \<comment> \<open>the number is in the range of a C \<^verbatim>\<open>int\<close>\<close>
  "fits_int n = (- (2 ^ 31) \<le> n \<and> n < 2 ^ 31)"

definition c_truncate :: "real \<Rightarrow> int" where
  \<comment> \<open>the integer part, toward zero\<close>
  "c_truncate x = (if 0 \<le> x then \<lfloor>x\<rfloor> else \<lceil>x\<rceil>)"

definition c_long_of_double :: "double \<Rightarrow> error + int" where
  \<comment> \<open>the cast \<^verbatim>\<open><long>zxi\<close> truncates toward zero; C leaves the cast of a NaN, of an
      infinity and of a number outside the range of \<^verbatim>\<open>long\<close> undefined\<close>
  "c_long_of_double a =
     (case a of
        Finite x \<Rightarrow>
          if fits_long (c_truncate x) then Inr (c_truncate x)
          else Inl (Unmodelled ''cast of a double outside the range of long'')
      | _ \<Rightarrow> Inl (Unmodelled ''cast of an infinity or NaN to long''))"

definition ieee_double_rounding :: "(real \<Rightarrow> double) \<Rightarrow> bool" where
  \<comment> \<open>two facts of rounding to a double: an integer of at most 53 bits is a double, and
      rounding is monotone, so a number between two doubles is rounded to a double between
      them\<close>
  "ieee_double_rounding rnd =
     ((\<forall>k::int. \<bar>k\<bar> \<le> 2 ^ 53 \<longrightarrow> rnd (real_of_int k) = Finite (real_of_int k))
      \<and> (\<forall>x::real. 0 \<le> x \<and> x \<le> 2 ^ 53 \<longrightarrow> (\<exists>y. rnd x = Finite y \<and> 0 \<le> y \<and> y \<le> 2 ^ 53)))"

subsection \<open>Reduced to regular grid: \<^verbatim>\<open>_redtoreg\<close>\<close>

definition deref :: "(int \<Rightarrow> 'a option) \<Rightarrow> 'a list \<Rightarrow> int \<Rightarrow> error + 'a" where
  \<comment> \<open>\<^verbatim>\<open>ptr[k]\<close> for a pointer to the first element of a buffer. A read outside the
      buffer gives what the memory of the run holds there, \<open>mem k\<close>, or ends the run when
      the address is not readable (\<open>None\<close>).\<close>
  "deref mem buf k =
     (if 0 \<le> k \<and> k < int (length buf) then Inr (buf ! nat k)
      else (case mem k of Some v \<Rightarrow> Inr v | None \<Rightarrow> Inl MemoryFault))"

definition redtoreg_cell ::
  "(real \<Rightarrow> double) \<Rightarrow> (int \<Rightarrow> double option) \<Rightarrow> int \<Rightarrow> int \<Rightarrow> int \<Rightarrow> double list \<Rightarrow> double
     \<Rightarrow> int \<Rightarrow> error + double" where
  \<comment> \<open>the body of the inner loop: the value left in \<^verbatim>\<open>reggrdptr[n]\<close>, which holds
      \<^verbatim>\<open>missval\<close> before the pass. Cython tests the divisor of \<^verbatim>\<open>/\<close>. In the loop
      \<^verbatim>\<open>i\<close> is not negative and rounding keeps the sign, so the two operands of each
      \<^verbatim>\<open>%\<close> have the same sign, and the result is that of \<open>mod\<close> on \<open>int\<close> under C's
      and under Python's convention.
      \<^verbatim>\<open>or\<close> reads its second operand only when the first is false.\<close>
  "redtoreg_cell rnd mem nlons ilons indx redgrid missval i =
     (if nlons = 0 then Inl (ZeroDivisionError ''float division'')
      else
        (let flons = rnd (real_of_int ilons);
             zxi = d_div rnd (d_mul rnd (rnd (real_of_int i)) flons) (rnd (real_of_int nlons))
         in bnd (c_long_of_double zxi) (\<lambda>im.
              let zdx = d_sub rnd zxi (rnd (real_of_int im))
              in if ilons \<noteq> 0 then
                   (if fits_long (im + ilons) \<and> fits_long ((im + ilons) mod ilons + 1 + ilons) then
                      (let im = (im + ilons) mod ilons;
                           ip = (im + 1 + ilons) mod ilons
                       in bnd (deref mem redgrid (indx + im)) (\<lambda>vm.
                            if d_eq vm missval then
                              (if d_lt zdx (Finite (1 / 2)) then Inr vm
                               else deref mem redgrid (indx + ip))
                            else bnd (deref mem redgrid (indx + ip)) (\<lambda>vp.
                              if d_eq vp missval then
                                (if d_lt zdx (Finite (1 / 2)) then Inr vm else Inr vp)
                              else Inr (d_add rnd (d_mul rnd vm (d_sub rnd (Finite 1) zdx))
                                          (d_mul rnd vp zdx)))))
                    else Inl (Unmodelled ''overflow of a C long''))
                 else Inr missval)))"

fun redtoreg_row ::
  "(real \<Rightarrow> double) \<Rightarrow> (int \<Rightarrow> double option) \<Rightarrow> int \<Rightarrow> int \<Rightarrow> int \<Rightarrow> double list \<Rightarrow> double
     \<Rightarrow> int list \<Rightarrow> error + double list" where
  \<comment> \<open>\<^verbatim>\<open>for i from 0 <= i < nlons\<close>, over the list of the remaining \<^verbatim>\<open>i\<close>\<close>
  "redtoreg_row rnd mem nlons ilons indx redgrid missval [] = Inr []"
| "redtoreg_row rnd mem nlons ilons indx redgrid missval (i # rest) =
     bnd (redtoreg_cell rnd mem nlons ilons indx redgrid missval i) (\<lambda>v.
     bnd (redtoreg_row rnd mem nlons ilons indx redgrid missval rest) (\<lambda>vs. Inr (v # vs)))"

fun redtoreg_rows ::
  "(real \<Rightarrow> double) \<Rightarrow> (int \<Rightarrow> double option) \<Rightarrow> int \<Rightarrow> double list \<Rightarrow> double \<Rightarrow> int
     \<Rightarrow> int list \<Rightarrow> error + double list list" where
  \<comment> \<open>\<^verbatim>\<open>for j from 0 <= j < nlats\<close>, over the remaining entries of \<^verbatim>\<open>lonsperlat\<close>,
      with the running offset \<^verbatim>\<open>indx\<close>. The counter \<^verbatim>\<open>n\<close> grows by one in every
      inner iteration, so iteration \<^verbatim>\<open>(j, i)\<close> writes cell \<^verbatim>\<open>i\<close> of row \<^verbatim>\<open>j\<close> of the
      \<^verbatim>\<open>(nlats, nlons)\<close> array.\<close>
  "redtoreg_rows rnd mem nlons redgrid missval indx [] = Inr []"
| "redtoreg_rows rnd mem nlons redgrid missval indx (ilons # rest) =
     bnd (redtoreg_row rnd mem nlons ilons indx redgrid missval (map int [0..<nat nlons])) (\<lambda>row.
       if fits_long (indx + ilons) then
         bnd (redtoreg_rows rnd mem nlons redgrid missval (indx + ilons) rest) (\<lambda>rows.
           Inr (row # rows))
       else Inl (Unmodelled ''overflow of a C long''))"

definition redtoreg ::
  "(real \<Rightarrow> double) \<Rightarrow> (int \<Rightarrow> double option) \<Rightarrow> int \<Rightarrow> int list \<Rightarrow> double list \<Rightarrow> double
     \<Rightarrow> error + double list list" where
  \<comment> \<open>\<^verbatim>\<open>_redtoreg(nlons, lonsperlat, redgrid, missval)\<close> on a machine that rounds with
      \<open>rnd\<close>, in a run whose memory around the data is \<open>mem\<close>; \<^verbatim>\<open>lonsperlat\<close> and
      \<^verbatim>\<open>redgrid\<close> are the data buffers of the two arrays.
      \<^verbatim>\<open>np.ones((nlats,nlons))\<close> refuses a negative dimension; the product with
      \<^verbatim>\<open>missval\<close> fills the array with \<^verbatim>\<open>missval\<close>.\<close>
  "redtoreg rnd mem nlons lonsperlat redgrid missval =
     (if nlons < 0 then Inl (ValueError ''negative dimensions are not allowed'')
      else redtoreg_rows rnd mem nlons redgrid missval 0 lonsperlat)"

subsection \<open>Python and numpy values\<close>

text \<open>
  A numpy array carries its element type. \<open>A0\<close> is a zero-dimensional array (the
  result of \<^verbatim>\<open>np.asarray\<close> on a scalar), \<open>A1\<close> a vector, \<open>A2\<close> the list of the rows of
  a two-dimensional array, and \<open>AN\<close> an array of more than two dimensions with its shape
  and its buffer in C order.
\<close>

datatype 'a nd = A0 'a | A1 "'a list" | A2 "'a list list" | AN "nat list" "'a list"

datatype ndarray = NdLong "int nd" | NdDouble "real nd"

datatype pyvalue =
    PyNone
  | PyLong int
  | PyDouble real
  | PyString string
  | PyArray ndarray
  | PyMasked ndarray pyvalue  \<comment> \<open>\<^verbatim>\<open>ma.masked_values(data, value)\<close>\<close>

fun ndim :: "'a nd \<Rightarrow> nat" where
  "ndim (A0 x) = 0"
| "ndim (A1 xs) = 1"
| "ndim (A2 rows) = 2"
| "ndim (AN shp buf) = max 3 (length shp)"

fun flat :: "'a nd \<Rightarrow> 'a list" where
  \<comment> \<open>the elements in C order: \<^verbatim>\<open>arr.data\<close> of a contiguous array\<close>
  "flat (A0 x) = [x]"
| "flat (A1 xs) = xs"
| "flat (A2 rows) = concat rows"
| "flat (AN shp buf) = buf"

fun len_nd :: "'a nd \<Rightarrow> error + nat" where
  \<comment> \<open>\<^verbatim>\<open>len(arr)\<close>: the first dimension\<close>
  "len_nd (A0 x) = Inl (TypeError ''len() of unsized object'')"
| "len_nd (A1 xs) = Inr (length xs)"
| "len_nd (A2 rows) = Inr (length rows)"
| "len_nd (AN shp buf) = Inr (case shp of [] \<Rightarrow> 0 | d # _ \<Rightarrow> d)"

definition rows_of :: "nat \<Rightarrow> nat \<Rightarrow> 'a list \<Rightarrow> 'a list list" where
  \<comment> \<open>the rows of a buffer read as \<open>ny\<close> rows of \<open>nx\<close> elements\<close>
  "rows_of ny nx buf = map (\<lambda>j. take nx (drop (j * nx) buf)) [0..<ny]"

definition infer_dim :: "int \<Rightarrow> int \<Rightarrow> nat \<Rightarrow> error + nat" where
  \<comment> \<open>one dimension of a new shape, beside the \<open>other\<close> one, for \<open>n\<close> elements: numpy
      accepts one dimension \<open>-1\<close> and computes it from the size; what it does with another
      negative number depends on its version\<close>
  "infer_dim d other n =
     (if 0 \<le> d then Inr (nat d)
      else if d = -1 then
        (if 0 < other \<and> n mod nat other = 0 then Inr (n div nat other)
         else Inl (ValueError ''total size of new array must be unchanged''))
      else Inl (Unmodelled ''a negative dimension other than -1''))"

definition set_shape :: "int \<Rightarrow> int \<Rightarrow> 'a nd \<Rightarrow> error + 'a nd" where
  \<comment> \<open>\<^verbatim>\<open>arr.shape = (ny, nx)\<close>\<close>
  "set_shape ny nx arr =
     bnd (infer_dim ny nx (length (flat arr))) (\<lambda>r.
     bnd (infer_dim nx ny (length (flat arr))) (\<lambda>c.
       if r * c = length (flat arr) then Inr (A2 (rows_of r c (flat arr)))
       else Inl (ValueError ''total size of new array must be unchanged'')))"

definition nd_ndim :: "ndarray \<Rightarrow> nat" where
  "nd_ndim arr = (case arr of NdLong a \<Rightarrow> ndim a | NdDouble a \<Rightarrow> ndim a)"

definition nd_size :: "ndarray \<Rightarrow> nat" where
  "nd_size arr = (case arr of NdLong a \<Rightarrow> length (flat a) | NdDouble a \<Rightarrow> length (flat a))"

definition nd_len :: "ndarray \<Rightarrow> error + nat" where
  "nd_len arr = (case arr of NdLong a \<Rightarrow> len_nd a | NdDouble a \<Rightarrow> len_nd a)"

definition nd_set_shape :: "int \<Rightarrow> int \<Rightarrow> ndarray \<Rightarrow> error + ndarray" where
  "nd_set_shape ny nx arr =
     (case arr of
        NdLong a \<Rightarrow> bnd (set_shape ny nx a) (\<lambda>a. Inr (NdLong a))
      | NdDouble a \<Rightarrow> bnd (set_shape ny nx a) (\<lambda>a. Inr (NdDouble a)))"

definition nd_reshape_scan :: "bool \<Rightarrow> bool \<Rightarrow> bool \<Rightarrow> ndarray \<Rightarrow> ndarray" where
  \<comment> \<open>\<open>reshape_scan\<close> on a two-dimensional array of either element type\<close>
  "nd_reshape_scan js is al arr =
     (case arr of
        NdLong (A2 rows) \<Rightarrow> NdLong (A2 (reshape_scan js is al rows))
      | NdDouble (A2 rows) \<Rightarrow> NdDouble (A2 (reshape_scan js is al rows))
      | _ \<Rightarrow> arr)"

definition nd_unshape_scan :: "bool \<Rightarrow> bool \<Rightarrow> bool \<Rightarrow> ndarray \<Rightarrow> ndarray" where
  \<comment> \<open>\<open>unshape_scan\<close> on a two-dimensional array of either element type\<close>
  "nd_unshape_scan js is al arr =
     (case arr of
        NdLong (A2 rows) \<Rightarrow> NdLong (A2 (unshape_scan js is al rows))
      | NdDouble (A2 rows) \<Rightarrow> NdDouble (A2 (unshape_scan js is al rows))
      | _ \<Rightarrow> arr)"

text \<open>
  Python's operators on the values a key can have. Where the outcome depends on the
  numpy version or on numpy's broadcasting of arrays, the embedding answers
  \<open>Unmodelled\<close>.
\<close>

definition py_truth :: "pyvalue \<Rightarrow> error + bool" where
  \<comment> \<open>\<^verbatim>\<open>if v:\<close>\<close>
  "py_truth v =
     (case v of
        PyNone \<Rightarrow> Inr False
      | PyLong n \<Rightarrow> Inr (n \<noteq> 0)
      | PyDouble x \<Rightarrow> Inr (x \<noteq> 0)
      | PyString s \<Rightarrow> Inr (s \<noteq> [])
      | PyArray (NdLong a) \<Rightarrow>
          (case flat a of [] \<Rightarrow> Inr False | [x] \<Rightarrow> Inr (x \<noteq> 0)
           | _ \<Rightarrow> Inl (ValueError ''The truth value of an array with more than one element is ambiguous''))
      | PyArray (NdDouble a) \<Rightarrow>
          (case flat a of [] \<Rightarrow> Inr False | [x] \<Rightarrow> Inr (x \<noteq> 0)
           | _ \<Rightarrow> Inl (ValueError ''The truth value of an array with more than one element is ambiguous''))
      | PyMasked a w \<Rightarrow> Inl (Unmodelled ''truth value of a masked array''))"

definition py_is :: "pyvalue \<Rightarrow> pyvalue \<Rightarrow> bool" where
  \<comment> \<open>\<^verbatim>\<open>a is b\<close> for two objects that were created separately: \<^verbatim>\<open>is\<close> compares the
      identity of the objects, not their values. \<^verbatim>\<open>None\<close> is a single object, and
      CPython keeps one object for each integer from -5 to 256; every other integer,
      float, string or array that is created is a new object.\<close>
  "py_is a b =
     (case (a, b) of
        (PyNone, PyNone) \<Rightarrow> True
      | (PyLong x, PyLong y) \<Rightarrow> x = y \<and> -5 \<le> x \<and> x \<le> 256
      | _ \<Rightarrow> False)"

definition py_eq_long :: "pyvalue \<Rightarrow> int \<Rightarrow> error + bool" where
  \<comment> \<open>the truth of \<^verbatim>\<open>v == n\<close> for an integer constant \<open>n\<close>\<close>
  "py_eq_long v n =
     (case v of
        PyLong x \<Rightarrow> Inr (x = n)
      | PyDouble x \<Rightarrow> Inr (x = real_of_int n)
      | PyNone \<Rightarrow> Inr False
      | PyString s \<Rightarrow> Inr False
      | _ \<Rightarrow> Inl (Unmodelled ''comparison of an array with a number''))"

definition py_ne_long :: "pyvalue \<Rightarrow> int \<Rightarrow> error + bool" where
  \<comment> \<open>the truth of \<^verbatim>\<open>v != n\<close>\<close>
  "py_ne_long v n = bnd (py_eq_long v n) (\<lambda>b. Inr (\<not> b))"

definition py_eq_str :: "pyvalue \<Rightarrow> string \<Rightarrow> bool" where
  \<comment> \<open>the truth of \<^verbatim>\<open>v == 'text'\<close>\<close>
  "py_eq_str v s = (v = PyString s)"

definition startswith :: "string \<Rightarrow> string \<Rightarrow> bool" where
  "startswith s prefix = (take (length prefix) s = prefix)"

definition py_startswith :: "pyvalue \<Rightarrow> string \<Rightarrow> error + bool" where
  \<comment> \<open>\<^verbatim>\<open>v.startswith(prefix)\<close>: only a string has the method\<close>
  "py_startswith v prefix =
     (case v of
        PyString s \<Rightarrow> Inr (startswith s prefix)
      | _ \<Rightarrow> Inl (AttributeError ''startswith''))"

definition as_c_double :: "pyvalue \<Rightarrow> error + real" where
  \<comment> \<open>the conversion of a Python number to a C \<^verbatim>\<open>double\<close>, and the number a scalar
      stands for in float arithmetic\<close>
  "as_c_double v =
     (case v of
        PyLong n \<Rightarrow> Inr (real_of_int n)
      | PyDouble x \<Rightarrow> Inr x
      | PyNone \<Rightarrow> Inl (TypeError ''a float is required'')
      | PyString s \<Rightarrow> Inl (TypeError ''a float is required'')
      | _ \<Rightarrow> Inl (Unmodelled ''an array where a number is expected''))"

definition as_c_long :: "pyvalue \<Rightarrow> error + int" where
  \<comment> \<open>the conversion of a Python integer to a C integer\<close>
  "as_c_long v =
     (case v of
        PyLong n \<Rightarrow> Inr n
      | PyNone \<Rightarrow> Inl (TypeError ''an integer is required'')
      | PyString s \<Rightarrow> Inl (TypeError ''an integer is required'')
      | _ \<Rightarrow> Inl (Unmodelled ''a float or an array where an integer is expected''))"

definition py_mul :: "pyvalue \<Rightarrow> pyvalue \<Rightarrow> error + pyvalue" where
  \<comment> \<open>\<^verbatim>\<open>a * b\<close> on numbers: an integer when both are integers, a float otherwise\<close>
  "py_mul a b =
     (case (a, b) of
        (PyLong x, PyLong y) \<Rightarrow> Inr (PyLong (x * y))
      | (PyLong x, PyDouble y) \<Rightarrow> Inr (PyDouble (real_of_int x * y))
      | (PyDouble x, PyLong y) \<Rightarrow> Inr (PyDouble (x * real_of_int y))
      | (PyDouble x, PyDouble y) \<Rightarrow> Inr (PyDouble (x * y))
      | (PyNone, _) \<Rightarrow> Inl (TypeError ''unsupported operand type(s) for *'')
      | (_, PyNone) \<Rightarrow> Inl (TypeError ''unsupported operand type(s) for *'')
      | _ \<Rightarrow> Inl (Unmodelled ''product with a string or an array''))"

definition py_div_float :: "pyvalue \<Rightarrow> real \<Rightarrow> error + real" where
  \<comment> \<open>\<^verbatim>\<open>a / d\<close> for a float \<open>d\<close>\<close>
  "py_div_float a d =
     bnd (as_c_double a) (\<lambda>x.
       if d = 0 then Inl (ZeroDivisionError ''float division'') else Inr (x / d))"

definition py_int :: "real \<Rightarrow> int" where
  \<comment> \<open>\<^verbatim>\<open>int(x)\<close> of a float truncates toward zero\<close>
  "py_int x = (if 0 \<le> x then \<lfloor>x\<rfloor> else \<lceil>x\<rceil>)"

definition is_space :: "char \<Rightarrow> bool" where
  "is_space c = (c \<in> set [CHR '' '', CHR 0x09, CHR 0x0A, CHR 0x0B, CHR 0x0C, CHR 0x0D])"

definition rstrip :: "string \<Rightarrow> string" where
  \<comment> \<open>\<^verbatim>\<open>msg.rstrip()\<close>\<close>
  "rstrip s = rev (dropWhile is_space (rev s))"

definition unassigned :: pyvalue where
  \<comment> \<open>the value of a local variable that no statement has assigned yet: the Cython this
      module is written for initialises every Python local variable to \<^verbatim>\<open>None\<close>, and
      reading one raises nothing\<close>
  "unassigned = PyNone"

definition py_True :: pyvalue where
  \<comment> \<open>\<^verbatim>\<open>True\<close> is the integer 1\<close>
  "py_True = PyLong 1"

subsection \<open>The decoder and the message object\<close>

text \<open>
  The GRIB API library is outside the module: its functions are the fields of a record,
  over any type \<open>'h\<close> of handle states, and every function of the module takes that
  record as a parameter. A library function returns its error code first; the
  functions that write into the handle also return the new handle state. The keys
  iterator is given by the list of the names it yields.
\<close>

datatype grib_type =
    GRIB_TYPE_UNDEFINED
  | GRIB_TYPE_LONG
  | GRIB_TYPE_DOUBLE
  | GRIB_TYPE_STRING
  | GRIB_TYPE_BYTES
  | GRIB_TYPE_SECTION
  | GRIB_TYPE_LABEL
  | GRIB_TYPE_MISSING

datatype iterator_flags = GRIB_KEYS_ITERATOR_ALL_KEYS | GRIB_KEYS_ITERATOR_SKIP_READ_ONLY

record 'h grib_api =
  grib_get_size :: "'h \<Rightarrow> string \<Rightarrow> int \<times> nat"
  grib_get_native_type :: "'h \<Rightarrow> string \<Rightarrow> int \<times> grib_type"
  grib_get_long :: "'h \<Rightarrow> string \<Rightarrow> int \<times> int"
  grib_get_long_array :: "'h \<Rightarrow> string \<Rightarrow> nat \<Rightarrow> int \<times> int list"
  grib_get_double :: "'h \<Rightarrow> string \<Rightarrow> int \<times> real"
  grib_get_double_array :: "'h \<Rightarrow> string \<Rightarrow> nat \<Rightarrow> int \<times> real list"
  grib_get_string :: "'h \<Rightarrow> string \<Rightarrow> nat \<Rightarrow> int \<times> string"
  grib_set_long :: "'h \<Rightarrow> string \<Rightarrow> int \<Rightarrow> int \<times> 'h"
  grib_set_long_array :: "'h \<Rightarrow> string \<Rightarrow> int list \<Rightarrow> int \<times> 'h"
  grib_set_double :: "'h \<Rightarrow> string \<Rightarrow> real \<Rightarrow> int \<times> 'h"
  grib_set_double_array :: "'h \<Rightarrow> string \<Rightarrow> real list \<Rightarrow> int \<times> 'h"
  grib_set_string :: "'h \<Rightarrow> string \<Rightarrow> string \<Rightarrow> int \<times> 'h"
  grib_keys_iterator_names :: "'h \<Rightarrow> iterator_flags \<Rightarrow> string list"
  grib_keys_iterator_delete :: "'h \<Rightarrow> iterator_flags \<Rightarrow> int"
  grib_get_error_message :: "int \<Rightarrow> string"
  GRIB_MISSING_LONG :: int
  GRIB_MISSING_DOUBLE :: int
    \<comment> \<open>the module declares the two constants in an \<^verbatim>\<open>enum\<close>, so both are integers to
        Cython: this one is the integer that the C compiler makes of the macro
        \<^verbatim>\<open>-1e+100\<close>\<close>
  round_double :: "real \<Rightarrow> double"
    \<comment> \<open>not of the library but of the machine it runs on: the rounding of its doubles\<close>
  beyond_buffer :: "int \<Rightarrow> double option"
    \<comment> \<open>not of the library but of the run: what a read outside the buffer of the
        \<^verbatim>\<open>values\<close> finds at an offset\<close>

text \<open>
  The attributes of a \<^verbatim>\<open>gribmessage\<close>, after \<^verbatim>\<open>__new__\<close> has filled the two key
  lists. \<^verbatim>\<open>projparams\<close> is \<^verbatim>\<open>None\<close> until \<^verbatim>\<open>latlons\<close> stores the dictionary.
\<close>

record 'h gribmessage =
  self_gh :: 'h
  self_messagenumber :: int
  self_projparams :: "(string \<rightharpoonup> pyvalue) option"
  self_missingvalue_int :: int
  self_missingvalue_float :: int
  self_expand_reduced :: bool
  self_ro_keys :: "string list"
  self_all_keys :: "string list"

definition raise_grib :: "'h grib_api \<Rightarrow> int \<Rightarrow> error" where
  \<comment> \<open>\<^verbatim>\<open>RuntimeError(grib_get_error_message(err))\<close>\<close>
  "raise_grib api err = RuntimeError (grib_get_error_message api err)"

definition ignored_names :: "string list" where
  "ignored_names = [''zero'', ''one'', ''eight'', ''eleven'', ''false'', ''thousand'', ''file'',
     ''localDir'', ''7777'', ''oneThousand'']"

definition ignored_types :: "grib_type list" where
  "ignored_types = [GRIB_TYPE_UNDEFINED, GRIB_TYPE_SECTION, GRIB_TYPE_BYTES, GRIB_TYPE_LABEL,
     GRIB_TYPE_MISSING]"

fun keys_loop :: "'h grib_api \<Rightarrow> 'h \<Rightarrow> string list \<Rightarrow> string list \<Rightarrow> error + string list" where
  \<comment> \<open>\<^verbatim>\<open>while grib_keys_iterator_next(gi)\<close> of \<^verbatim>\<open>keys\<close>, over the names still to come,
      with the list \<^verbatim>\<open>keys\<close> built so far\<close>
  "keys_loop api h [] keys = Inr keys"
| "keys_loop api h (key # names) keys =
     (if key \<in> set ignored_names then keys_loop api h names keys
      else
        (case grib_get_native_type api h key of (err, type) \<Rightarrow>
           if err \<noteq> 0 then Inl (raise_grib api err)
           else if type \<notin> set ignored_types then keys_loop api h names (keys @ [key])
           else keys_loop api h names keys))"

definition keys_uncached :: "'h grib_api \<Rightarrow> 'h \<Rightarrow> error + string list" where
  \<comment> \<open>\<^verbatim>\<open>keys()\<close> while \<^verbatim>\<open>_all_keys\<close> is still \<^verbatim>\<open>None\<close>\<close>
  "keys_uncached api h =
     bnd (keys_loop api h (grib_keys_iterator_names api h GRIB_KEYS_ITERATOR_ALL_KEYS) []) (\<lambda>keys.
       let err = grib_keys_iterator_delete api h GRIB_KEYS_ITERATOR_ALL_KEYS
       in if err \<noteq> 0 then Inl (raise_grib api err) else Inr keys)"

definition keys :: "'h gribmessage \<Rightarrow> string list" where
  \<comment> \<open>\<^verbatim>\<open>keys()\<close> of a constructed message: the cached list\<close>
  "keys self = self_all_keys self"

definition read_only_keys :: "'h grib_api \<Rightarrow> 'h \<Rightarrow> string list \<Rightarrow> error + string list" where
  \<comment> \<open>\<^verbatim>\<open>_read_only_keys()\<close>, with \<^verbatim>\<open>self._all_keys\<close> as third argument\<close>
  "read_only_keys api h all_keys =
     (let keys_noro = grib_keys_iterator_names api h GRIB_KEYS_ITERATOR_SKIP_READ_ONLY;
          err = grib_keys_iterator_delete api h GRIB_KEYS_ITERATOR_SKIP_READ_ONLY
      in if err \<noteq> 0 then Inl (raise_grib api err)
         else Inr (filter (\<lambda>key. key \<notin> set keys_noro) all_keys))"

definition new_gribmessage :: "'h grib_api \<Rightarrow> 'h \<Rightarrow> int \<Rightarrow> error + 'h gribmessage" where
  \<comment> \<open>\<^verbatim>\<open>gribmessage.__new__(self, grb)\<close> from the handle and the message number of
      \<^verbatim>\<open>grb\<close>\<close>
  "new_gribmessage api grb_gh grb_messagenumber =
     bnd (keys_uncached api grb_gh) (\<lambda>all_keys.
     bnd (read_only_keys api grb_gh all_keys) (\<lambda>ro_keys.
       Inr \<lparr> self_gh = grb_gh,
             self_messagenumber = grb_messagenumber,
             self_projparams = None,
             self_missingvalue_int = GRIB_MISSING_LONG api,
             self_missingvalue_float = GRIB_MISSING_DOUBLE api,
             self_expand_reduced = True,
             self_ro_keys = ro_keys,
             self_all_keys = all_keys \<rparr>))"

definition has_key :: "'h gribmessage \<Rightarrow> string \<Rightarrow> bool" where
  "has_key self key = (key \<in> set (self_all_keys self))"

subsection \<open>\<^verbatim>\<open>_reshape_mask\<close>\<close>

text \<open>
  The methods read other keys through \<^verbatim>\<open>self[...]\<close>. In the embedding that read is the
  parameter \<open>self_get\<close>, which \<open>getitem\<close> below instantiates with itself, one call
  deeper.
\<close>

definition as_c_int :: "pyvalue \<Rightarrow> error + int" where
  \<comment> \<open>the conversion of a Python integer to a C \<^verbatim>\<open>int\<close>\<close>
  "as_c_int v =
     bnd (as_c_long v) (\<lambda>n.
       if fits_int n then Inr n else Inl (Unmodelled ''an integer outside the range of a C int''))"

definition ndarray_of_doubles :: "double list list \<Rightarrow> error + ndarray" where
  \<comment> \<open>the two-dimensional array of the rows, when all its elements are finite\<close>
  "ndarray_of_doubles rows =
     (if list_all (list_all is_finite) rows then Inr (NdDouble (A2 (map (map the_real) rows)))
      else Inl (Unmodelled ''an array that holds an infinity or NaN''))"

definition double_literal :: "(real \<Rightarrow> double) \<Rightarrow> real \<Rightarrow> error + real" where
  \<comment> \<open>a float literal of the source: the double nearest to the number it spells\<close>
  "double_literal rnd x =
     (case rnd x of
        Finite y \<Rightarrow> Inr y
      | _ \<Rightarrow> Inl (Unmodelled ''a literal that is no finite double''))"

definition redtoreg_call ::
  "(real \<Rightarrow> double) \<Rightarrow> (int \<Rightarrow> double option) \<Rightarrow> pyvalue \<Rightarrow> pyvalue \<Rightarrow> ndarray \<Rightarrow> real
     \<Rightarrow> error + ndarray" where
  \<comment> \<open>the call \<^verbatim>\<open>_redtoreg(nlons, lonsperlat, redgrid, missval)\<close> with Python arguments:
      \<^verbatim>\<open>nlons\<close> becomes a C \<^verbatim>\<open>int\<close>, \<^verbatim>\<open>lonsperlat\<close> must be an array, and the two data
      buffers are read as \<^verbatim>\<open>long\<close> and as \<^verbatim>\<open>double\<close> whatever their element type\<close>
  "redtoreg_call rnd mem nlons lonsperlat redgrid missval =
     bnd (as_c_int nlons) (\<lambda>nlons.
       case lonsperlat of
         PyArray pl \<Rightarrow>
           bnd (nd_len pl) (\<lambda>nlats.
           bnd (nd_len redgrid) (\<lambda>npts.
             case (pl, redgrid) of
               (NdLong lons, NdDouble red) \<Rightarrow>
                 if nlats \<le> length (flat lons) then
                   bnd (redtoreg rnd mem nlons (take nlats (flat lons)) (map Finite (flat red))
                          (Finite missval)) ndarray_of_doubles
                 else Inl MemoryFault
             | _ \<Rightarrow> Inl MemoryFault))
       | _ \<Rightarrow> Inl (TypeError ''Argument lonsperlat has incorrect type''))"

definition scan_flag :: "(string \<Rightarrow> error + pyvalue) \<Rightarrow> string \<Rightarrow> error + bool" where
  \<comment> \<open>the truth of \<^verbatim>\<open>self[key]\<close>\<close>
  "scan_flag self_get key = bnd (self_get key) py_truth"

definition scan_and_mask ::
  "'h gribmessage \<Rightarrow> (string \<Rightarrow> error + pyvalue) \<Rightarrow> ndarray \<Rightarrow> error + pyvalue" where
  \<comment> \<open>the end of \<^verbatim>\<open>_reshape_mask\<close>, from \<^verbatim>\<open>if datarr.ndim == 2:\<close> to
      \<^verbatim>\<open>return datarr\<close>. The three scan flags are read in the order of the source; the
      flips between the reads cannot fail, so they are applied together by
      \<open>reshape_scan\<close> once the flags are known.\<close>
  "scan_and_mask self self_get datarr =
     (if nd_ndim datarr = 2 then
        bnd (scan_flag self_get ''jScansPositively'') (\<lambda>js.
        bnd (scan_flag self_get ''iScansNegatively'') (\<lambda>is.
        bnd (scan_flag self_get ''alternativeRowScanning'') (\<lambda>al.
        bnd (if has_key self ''missingValue'' then scan_flag self_get ''numberOfMissing''
             else Inr False) (\<lambda>missing.
          if missing then
            bnd (self_get ''missingValue'') (\<lambda>value.
              Inr (PyMasked (nd_reshape_scan js is al datarr) value))
          else Inr (PyArray (nd_reshape_scan js is al datarr))))))
      else Inr (PyArray datarr))"

definition reshape_mask ::
  "'h grib_api \<Rightarrow> 'h gribmessage \<Rightarrow> (string \<Rightarrow> error + pyvalue) \<Rightarrow> ndarray \<Rightarrow> error + pyvalue" where
  \<comment> \<open>\<^verbatim>\<open>_reshape_mask(self, datarr)\<close>\<close>
  "reshape_mask api self self_get datarr =
     (if nd_ndim datarr > 2 then Inl (ValueError ''array must be 1d or 2d'')
      else if has_key self ''Ni'' \<and> has_key self ''Nj'' then
        bnd (self_get ''Ni'') (\<lambda>nx.
        bnd (self_get ''Nj'') (\<lambda>ny.
        bnd (bnd (py_ne_long ny (GRIB_MISSING_LONG api)) (\<lambda>b.
               if b then py_ne_long nx (GRIB_MISSING_LONG api) else Inr False)) (\<lambda>shaped.
        bnd (if shaped then
               bnd (as_c_long ny) (\<lambda>r. bnd (as_c_long nx) (\<lambda>c. nd_set_shape r c datarr))
             else Inr datarr) (\<lambda>datarr.
        bnd (if has_key self ''typeOfGrid'' then
               bnd (self_get ''typeOfGrid'') (\<lambda>g. py_startswith g ''reduced'')
             else Inr False) (\<lambda>reduced.
        bnd (if reduced then
               bnd (if has_key self ''missingValue'' then bnd (self_get ''missingValue'') as_c_double
                    else double_literal (round_double api) (10 ^ 30)) (\<lambda>missval.
                 if self_expand_reduced self then
                   bnd (py_mul (PyLong 2) ny) (\<lambda>nlons.
                   bnd (self_get ''pl'') (\<lambda>pl.
                     redtoreg_call (round_double api) (beyond_buffer api) nlons pl datarr
                       missval))
                 else Inr datarr)
             else Inr datarr) (scan_and_mask self self_get))))))
      else Inr (PyArray datarr))"

subsection \<open>\<^verbatim>\<open>__getitem__\<close>\<close>

definition storage_order :: "'h gribmessage \<Rightarrow> (string \<Rightarrow> error + pyvalue) \<Rightarrow> error + char" where
  \<comment> \<open>the choice of \<^verbatim>\<open>storageorder\<close>; the order makes no difference to the
      one-dimensional array that \<^verbatim>\<open>np.empty(size, ...)\<close> allocates\<close>
  "storage_order self self_get =
     bnd (if has_key self ''jPointsAreConsecutive''
          then bnd (self_get ''jPointsAreConsecutive'') py_truth else Inr False) (\<lambda>f.
       Inr (if f then CHR ''F'' else CHR ''C''))"

definition getitem_body ::
  "'h grib_api \<Rightarrow> 'h gribmessage \<Rightarrow> (string \<Rightarrow> error + pyvalue) \<Rightarrow> string \<Rightarrow> error + pyvalue" where
  \<comment> \<open>the body of \<^verbatim>\<open>__getitem__(self, key)\<close>\<close>
  "getitem_body api self self_get key =
     (case grib_get_size api (self_gh self) key of (err, nsize) \<Rightarrow>
      if err \<noteq> 0 then Inl (raise_grib api err)
      else
        (case grib_get_native_type api (self_gh self) key of (err, type) \<Rightarrow>
         if err \<noteq> 0 then Inl (raise_grib api err)
         else if type = GRIB_TYPE_UNDEFINED then Inr PyNone
         else if type = GRIB_TYPE_LONG then
           (if nsize = 1 then
              (case grib_get_long api (self_gh self) key of (err, longval) \<Rightarrow>
                 if err \<noteq> 0 then Inl (raise_grib api err) else Inr (PyLong longval))
            else
              bnd (storage_order self self_get) (\<lambda>storageorder.
                case grib_get_long_array api (self_gh self) key nsize of (err, buf) \<Rightarrow>
                  if err \<noteq> 0 then Inl (raise_grib api err)
                  else if key = ''values'' then reshape_mask api self self_get (NdLong (A1 buf))
                  else Inr (PyArray (NdLong (A1 buf)))))
         else if type = GRIB_TYPE_DOUBLE then
           (if nsize = 1 then
              (case grib_get_double api (self_gh self) key of (err, doubleval) \<Rightarrow>
                 if err \<noteq> 0 then Inl (raise_grib api err) else Inr (PyDouble doubleval))
            else
              bnd (storage_order self self_get) (\<lambda>storageorder.
                case grib_get_double_array api (self_gh self) key nsize of (err, buf) \<Rightarrow>
                  if err \<noteq> 0 then Inl (raise_grib api err)
                  else if key = ''values'' then reshape_mask api self self_get (NdDouble (A1 buf))
                  else Inr (PyArray (NdDouble (A1 buf)))))
         else if type = GRIB_TYPE_STRING then
           (case grib_get_string api (self_gh self) key 1024 of (err, strdata) \<Rightarrow>
              if err \<noteq> 0 then Inl (raise_grib api err) else Inr (PyString (rstrip strdata)))
         else Inl (ValueError ''unrecognized grib type'')))"

primrec getitem :: "nat \<Rightarrow> 'h grib_api \<Rightarrow> 'h gribmessage \<Rightarrow> string \<Rightarrow> error + pyvalue" where
  \<comment> \<open>\<^verbatim>\<open>self[key]\<close> with \<open>depth\<close> nested calls of \<^verbatim>\<open>__getitem__\<close> left before the
      interpreter's recursion limit\<close>
  "getitem 0 api self key = Inl RecursionError"
| "getitem (Suc depth) api self key = getitem_body api self (getitem depth api self) key"

subsection \<open>\<^verbatim>\<open>latlons\<close>\<close>

text \<open>
  The projection library (\<^verbatim>\<open>pyproj\<close>) is a parameter as well: the constructor of a
  projection from the dictionary of parameters, and the forward and inverse maps of a
  projection \<open>'pj\<close>.
\<close>

record 'pj pyproj_api =
  Proj :: "(string \<rightharpoonup> pyvalue) \<Rightarrow> error + 'pj"
  proj_forward :: "'pj \<Rightarrow> real \<Rightarrow> real \<Rightarrow> error + real \<times> real"
  proj_inverse :: "'pj \<Rightarrow> real list list \<Rightarrow> real list list \<Rightarrow> error + real list list \<times> real list list"

definition if_m :: "error + bool \<Rightarrow> error + 'a \<Rightarrow> error + 'a \<Rightarrow> error + 'a" where
  \<comment> \<open>\<^verbatim>\<open>if c: t else: e\<close> for a condition that may raise\<close>
  "if_m c t e = bnd c (\<lambda>b. if b then t else e)"

definition nd_mesh_x :: "nat \<Rightarrow> ndarray \<Rightarrow> ndarray" where
  \<comment> \<open>the first result of \<^verbatim>\<open>np.meshgrid(x, y)\<close>: the vector \<open>x\<close> as each of
      \<open>ny\<close> rows\<close>
  "nd_mesh_x ny x =
     (case x of
        NdLong (A1 xs) \<Rightarrow> NdLong (A2 (replicate ny xs))
      | NdDouble (A1 xs) \<Rightarrow> NdDouble (A2 (replicate ny xs))
      | _ \<Rightarrow> x)"

definition nd_mesh_y :: "nat \<Rightarrow> ndarray \<Rightarrow> ndarray" where
  \<comment> \<open>the second result of \<^verbatim>\<open>np.meshgrid(x, y)\<close>: row \<open>j\<close> holds \<open>nx\<close> times the
      entry \<open>j\<close> of \<open>y\<close>\<close>
  "nd_mesh_y nx y =
     (case y of
        NdLong (A1 ys) \<Rightarrow> NdLong (A2 (map (replicate nx) ys))
      | NdDouble (A1 ys) \<Rightarrow> NdDouble (A2 (map (replicate nx) ys))
      | _ \<Rightarrow> y)"

definition meshgrid :: "pyvalue \<Rightarrow> pyvalue \<Rightarrow> error + ndarray \<times> ndarray" where
  \<comment> \<open>\<^verbatim>\<open>np.meshgrid(x, y)\<close> of two vectors\<close>
  "meshgrid x y =
     (case (x, y) of
        (PyArray ax, PyArray ay) \<Rightarrow>
          if nd_ndim ax = 1 \<and> nd_ndim ay = 1
          then Inr (nd_mesh_x (nd_size ay) ax, nd_mesh_y (nd_size ax) ay)
          else Inl (Unmodelled ''meshgrid of arrays that are not vectors'')
      | _ \<Rightarrow> Inl (Unmodelled ''meshgrid of values that are not arrays''))"

definition linspace_values :: "real \<Rightarrow> real \<Rightarrow> nat \<Rightarrow> real list" where
  "linspace_values start stop num =
     (if num = 1 then [start]
      else map (\<lambda>i. start + real i * ((stop - start) / real (num - 1))) [0..<num])"

definition linspace :: "pyvalue \<Rightarrow> pyvalue \<Rightarrow> pyvalue \<Rightarrow> error + pyvalue" where
  \<comment> \<open>\<^verbatim>\<open>np.linspace(start, stop, num)\<close>: the points in exact arithmetic; numpy rounds
      each of them to a double\<close>
  "linspace start stop num =
     bnd (as_c_double start) (\<lambda>a.
     bnd (as_c_double stop) (\<lambda>b.
     bnd (as_c_long num) (\<lambda>n.
       if n < 0 then Inl (ValueError ''Number of samples must be non-negative'')
       else Inr (PyArray (NdDouble (A1 (linspace_values a b (nat n))))))))"

definition earth_scale :: "'h gribmessage \<Rightarrow> pyvalue \<Rightarrow> pyvalue \<Rightarrow> error + pyvalue" where
  \<comment> \<open>\<^verbatim>\<open>if scale and scale is not self.missingvalue_int:
        scale = 1000.*np.power(10.0,-scale) else: scale = 1\<close>,
      where \<open>scale\<close> is the object that \<^verbatim>\<open>self[...]\<close> has just returned\<close>
  "earth_scale self scale one =
     bnd (py_truth scale) (\<lambda>t.
       if t \<and> \<not> py_is scale (PyLong (self_missingvalue_int self)) then
         bnd (as_c_double scale) (\<lambda>s. Inr (PyDouble (1000 * 10 powr (- s))))
       else Inr one)"

definition earth_scales ::
  "'h gribmessage \<Rightarrow> (string \<Rightarrow> error + pyvalue) \<Rightarrow> error + pyvalue \<times> pyvalue" where
  \<comment> \<open>the values of \<^verbatim>\<open>scalea\<close> and \<^verbatim>\<open>scaleb\<close>\<close>
  "earth_scales self self_get =
     (if has_key self ''scaleFactorOfMajorAxisOfOblateSpheroidEarth'' then
        bnd (self_get ''scaleFactorOfMajorAxisOfOblateSpheroidEarth'') (\<lambda>scalea.
        bnd (self_get ''scaleFactorOfMinorAxisOfOblateSpheroidEarth'') (\<lambda>scaleb.
        bnd (earth_scale self scalea (PyLong 1)) (\<lambda>scalea.
        bnd (earth_scale self scaleb (PyDouble 1)) (\<lambda>scaleb.
          Inr (scalea, scaleb)))))
      else Inr (PyDouble 1, PyDouble 1))"

definition shape_is :: "(string \<Rightarrow> error + pyvalue) \<Rightarrow> int \<Rightarrow> error + bool" where
  \<comment> \<open>\<^verbatim>\<open>self['shapeOfTheEarth'] == n\<close>\<close>
  "shape_is self_get n = bnd (self_get ''shapeOfTheEarth'') (\<lambda>v. py_eq_long v n)"

definition earth_shape ::
  "'h gribmessage \<Rightarrow> (string \<Rightarrow> error + pyvalue) \<Rightarrow> error + pyvalue \<times> pyvalue" where
  \<comment> \<open>the first part of \<^verbatim>\<open>latlons\<close>: the values stored in \<^verbatim>\<open>projparams['a']\<close> and
      \<^verbatim>\<open>projparams['b']\<close>\<close>
  "earth_shape self self_get =
     bnd (earth_scales self self_get) (\<lambda>(scalea, scaleb).
     if_m (shape_is self_get 6)
       (bnd (self_get ''radius'') (\<lambda>a.
        bnd (self_get ''radius'') (\<lambda>b. Inr (a, b))))
    (if_m (if_m (shape_is self_get 3) (Inr True) (shape_is self_get 7))
       (bnd (self_get ''scaledValueOfMajorAxisOfOblateSpheroidEarth'') (\<lambda>major.
        bnd (py_mul major scalea) (\<lambda>a.
        bnd (self_get ''scaledValueOfMinorAxisOfOblateSpheroidEarth'') (\<lambda>minor.
        bnd (py_mul minor scaleb) (\<lambda>b. Inr (a, b))))))
    (if_m (shape_is self_get 2)
       (Inr (PyDouble 6378160, PyDouble 6356775))
    (if_m (shape_is self_get 1)
       (bnd (self_get ''scaledValueOfRadiusOfSphericalEarth'') (\<lambda>r.
        bnd (py_mul r scalea) (\<lambda>a.
        bnd (self_get ''scaledValueOfRadiusOfSphericalEarth'') (\<lambda>r.
        bnd (py_mul r scaleb) (\<lambda>b. Inr (a, b))))))
    (if_m (shape_is self_get 0)
       (Inr (PyDouble 6367470, PyDouble 6367470))
    (if_m (shape_is self_get 0)
       (Inr (PyDouble 6378137, PyDouble 6356752.3142))
    (if_m (shape_is self_get 8)
       (Inr (PyDouble 6371200, PyDouble 6371200))
       (Inl (ValueError ''unknown shape of the earth flag'')))))))))"

definition grid_is :: "(string \<Rightarrow> error + pyvalue) \<Rightarrow> string \<Rightarrow> error + bool" where
  \<comment> \<open>\<^verbatim>\<open>self['typeOfGrid'] == name\<close>\<close>
  "grid_is self_get name = bnd (self_get ''typeOfGrid'') (\<lambda>g. Inr (py_eq_str g name))"

definition grid_in :: "(string \<Rightarrow> error + pyvalue) \<Rightarrow> string list \<Rightarrow> error + bool" where
  \<comment> \<open>\<^verbatim>\<open>self['typeOfGrid'] in names\<close>\<close>
  "grid_in self_get names =
     bnd (self_get ''typeOfGrid'') (\<lambda>g. Inr (list_ex (py_eq_str g) names))"

type_synonym grid = "ndarray \<times> ndarray \<times> (string \<rightharpoonup> pyvalue)"

definition latlons_regular ::
  "(string \<Rightarrow> error + pyvalue) \<Rightarrow> (string \<rightharpoonup> pyvalue) \<Rightarrow> error + grid" where
  \<comment> \<open>the branch of \<^verbatim>\<open>'regular_gg'\<close> and \<^verbatim>\<open>'regular_ll'\<close>; a branch returns
      \<^verbatim>\<open>lats\<close>, \<^verbatim>\<open>lons\<close> and the dictionary\<close>
  "latlons_regular self_get projparams =
     bnd (self_get ''distinctLongitudes'') (\<lambda>lons.
     bnd (self_get ''distinctLatitudes'') (\<lambda>lats.
     bnd (meshgrid lons lats) (\<lambda>(lons, lats).
       Inr (lats, lons, projparams(''proj'' \<mapsto> PyString ''cyl'')))))"

definition latlons_reduced_gg ::
  "(string \<Rightarrow> error + pyvalue) \<Rightarrow> (string \<rightharpoonup> pyvalue) \<Rightarrow> error + grid" where
  "latlons_reduced_gg self_get projparams =
     bnd (self_get ''distinctLatitudes'') (\<lambda>lats.
     bnd (self_get ''Nj'') (\<lambda>ny.
     bnd (py_mul (PyLong 2) ny) (\<lambda>nx.
     bnd (self_get ''longitudeOfFirstGridPointInDegrees'') (\<lambda>lon1.
     bnd (self_get ''longitudeOfLastGridPointInDegrees'') (\<lambda>lon2.
     bnd (linspace lon1 lon2 nx) (\<lambda>lons.
     bnd (meshgrid lons lats) (\<lambda>(lons, lats).
       Inr (lats, lons, projparams(''proj'' \<mapsto> PyString ''cyl'')))))))))"

definition latlons_reduced_ll ::
  "(string \<Rightarrow> error + pyvalue) \<Rightarrow> (string \<rightharpoonup> pyvalue) \<Rightarrow> error + grid" where
  "latlons_reduced_ll self_get projparams =
     bnd (self_get ''Nj'') (\<lambda>ny.
     bnd (py_mul (PyLong 2) ny) (\<lambda>nx.
     bnd (self_get ''latitudeOfFirstGridPointInDegrees'') (\<lambda>lat1.
     bnd (self_get ''latitudeOfLastGridPointInDegrees'') (\<lambda>lat2.
     bnd (self_get ''longitudeOfFirstGridPointInDegrees'') (\<lambda>lon1.
     bnd (self_get ''longitudeOfLastGridPointInDegrees'') (\<lambda>lon2.
     bnd (linspace lon1 lon2 nx) (\<lambda>lons.
     bnd (linspace lat1 lat2 ny) (\<lambda>lats.
     bnd (meshgrid lons lats) (\<lambda>(lons, lats).
       Inr (lats, lons, projparams(''proj'' \<mapsto> PyString ''cyl'')))))))))))"

text \<open>
  The projected grids build a mesh of \<open>x\<close> and \<open>y\<close> and map it back through the
  projection.
\<close>

definition forward :: "'pj pyproj_api \<Rightarrow> 'pj \<Rightarrow> pyvalue \<Rightarrow> pyvalue \<Rightarrow> error + real \<times> real" where
  \<comment> \<open>\<^verbatim>\<open>pj(lon, lat)\<close> on two numbers\<close>
  "forward pyproj pj lon lat =
     bnd (as_c_double lon) (\<lambda>lon.
     bnd (as_c_double lat) (\<lambda>lat. proj_forward pyproj pj lon lat))"

definition arange :: "pyvalue \<Rightarrow> error + real list" where
  \<comment> \<open>\<^verbatim>\<open>np.arange(n)\<close> for an integer \<open>n\<close>\<close>
  "arange n = bnd (as_c_long n) (\<lambda>n. Inr (map real [0..<nat n]))"

definition axis :: "real \<Rightarrow> pyvalue \<Rightarrow> pyvalue \<Rightarrow> error + real list" where
  \<comment> \<open>\<^verbatim>\<open>llcrnr + d*np.arange(n)\<close>\<close>
  "axis llcrnr d n =
     bnd (arange n) (\<lambda>ks.
     bnd (as_c_double d) (\<lambda>d. Inr (map (\<lambda>k. llcrnr + d * k) ks)))"

definition invert ::
  "'pj pyproj_api \<Rightarrow> 'pj \<Rightarrow> real list \<Rightarrow> real list \<Rightarrow> error + ndarray \<times> ndarray" where
  \<comment> \<open>\<^verbatim>\<open>x, y = np.meshgrid(x, y); lons, lats = pj(x, y, inverse=True)\<close>, returned as
      \<^verbatim>\<open>lats\<close> and \<^verbatim>\<open>lons\<close>\<close>
  "invert pyproj pj x y =
     bnd (proj_inverse pyproj pj (replicate (length y) x) (map (replicate (length x)) y))
       (\<lambda>(lons, lats). Inr (NdDouble (A2 lats), NdDouble (A2 lons)))"

definition xy_grid ::
  "'pj pyproj_api \<Rightarrow> 'pj \<Rightarrow> real \<Rightarrow> real \<Rightarrow> pyvalue \<Rightarrow> pyvalue \<Rightarrow> pyvalue \<Rightarrow> pyvalue
     \<Rightarrow> error + ndarray \<times> ndarray" where
  \<comment> \<open>\<^verbatim>\<open>x = llcrnrx+dx*np.arange(nx); y = llcrnry+dy*np.arange(ny)\<close>, the mesh and the
      inverse map\<close>
  "xy_grid pyproj pj llcrnrx llcrnry dx dy nx ny =
     bnd (axis llcrnrx dx nx) (\<lambda>x.
     bnd (axis llcrnry dy ny) (\<lambda>y. invert pyproj pj x y))"

definition latlons_polar_stereographic ::
  "'pj pyproj_api \<Rightarrow> (string \<Rightarrow> error + pyvalue) \<Rightarrow> (string \<rightharpoonup> pyvalue) \<Rightarrow> error + grid" where
  "latlons_polar_stereographic pyproj self_get projparams =
     bnd (self_get ''latitudeOfFirstGridPointInDegrees'') (\<lambda>lat1.
     bnd (self_get ''longitudeOfFirstGridPointInDegrees'') (\<lambda>lon1.
     bnd (self_get ''Ni'') (\<lambda>nx.
     bnd (self_get ''Nj'') (\<lambda>ny.
     bnd (self_get ''xDirectionGridLengthInMetres'') (\<lambda>dx.
     bnd (self_get ''yDirectionGridLengthInMetres'') (\<lambda>dy.
     bnd (self_get ''latitudeWhereDxAndDyAreSpecifiedInDegrees'') (\<lambda>lat_ts.
     bnd (bnd (self_get ''projectionCentreFlag'') (\<lambda>f. py_eq_long f 0)) (\<lambda>north.
     bnd (self_get ''orientationOfTheGridInDegrees'') (\<lambda>lon_0.
       let projparams = projparams(''proj'' \<mapsto> PyString ''stere'', ''lat_ts'' \<mapsto> lat_ts,
             ''lat_0'' \<mapsto> PyDouble (if north then 90 else - 90), ''lon_0'' \<mapsto> lon_0)
       in bnd (Proj pyproj projparams) (\<lambda>pj.
          bnd (forward pyproj pj lon1 lat1) (\<lambda>(llcrnrx, llcrnry).
          bnd (xy_grid pyproj pj llcrnrx llcrnry dx dy nx ny) (\<lambda>(lats, lons).
            Inr (lats, lons, projparams)))))))))))))"

definition latlons_lambert ::
  "'pj pyproj_api \<Rightarrow> (string \<Rightarrow> error + pyvalue) \<Rightarrow> (string \<rightharpoonup> pyvalue) \<Rightarrow> error + grid" where
  "latlons_lambert pyproj self_get projparams =
     bnd (self_get ''latitudeOfFirstGridPointInDegrees'') (\<lambda>lat1.
     bnd (self_get ''longitudeOfFirstGridPointInDegrees'') (\<lambda>lon1.
     bnd (self_get ''Ni'') (\<lambda>nx.
     bnd (self_get ''Nj'') (\<lambda>ny.
     bnd (self_get ''DxInMetres'') (\<lambda>dx.
     bnd (self_get ''DyInMetres'') (\<lambda>dy.
     bnd (self_get ''LoVInDegrees'') (\<lambda>lon_0.
     bnd (self_get ''LaDInDegrees'') (\<lambda>lat_0.
     bnd (self_get ''Latin1InDegrees'') (\<lambda>lat_1.
     bnd (self_get ''Latin2InDegrees'') (\<lambda>lat_2.
       let projparams = projparams(''proj'' \<mapsto> PyString ''lcc'', ''lon_0'' \<mapsto> lon_0,
             ''lat_0'' \<mapsto> lat_0, ''lat_1'' \<mapsto> lat_1, ''lat_2'' \<mapsto> lat_2)
       in bnd (Proj pyproj projparams) (\<lambda>pj.
          bnd (forward pyproj pj lon1 lat1) (\<lambda>(llcrnrx, llcrnry).
          bnd (xy_grid pyproj pj llcrnrx llcrnry dx dy nx ny) (\<lambda>(lats, lons).
            Inr (lats, lons, projparams))))))))))))))"

definition py_float :: "pyvalue \<Rightarrow> error + real" where
  \<comment> \<open>\<^verbatim>\<open>float(v)\<close>\<close>
  "py_float v =
     (case v of
        PyLong n \<Rightarrow> Inr (real_of_int n)
      | PyDouble x \<Rightarrow> Inr x
      | PyNone \<Rightarrow> Inl (TypeError ''float() argument must be a string or a number'')
      | _ \<Rightarrow> Inl (Unmodelled ''float() of a string or an array''))"

definition scaled_degrees ::
  "(string \<Rightarrow> error + pyvalue) \<Rightarrow> string \<Rightarrow> real \<Rightarrow> error + pyvalue" where
  \<comment> \<open>\<^verbatim>\<open>d = self[key]/scale\<close> followed by
      \<^verbatim>\<open>if self['truncateDegrees']: d = int(d)\<close>\<close>
  "scaled_degrees self_get key scale =
     bnd (self_get key) (\<lambda>v.
     bnd (py_div_float v scale) (\<lambda>d.
     bnd (scan_flag self_get ''truncateDegrees'') (\<lambda>truncate.
       Inr (if truncate then PyLong (py_int d) else PyDouble d))))"

definition latlons_albers ::
  "'pj pyproj_api \<Rightarrow> (string \<Rightarrow> error + pyvalue) \<Rightarrow> (string \<rightharpoonup> pyvalue) \<Rightarrow> error + grid" where
  "latlons_albers pyproj self_get projparams =
     bnd (self_get ''latitudeOfFirstGridPointInDegrees'') (\<lambda>lat1.
     bnd (self_get ''longitudeOfFirstGridPointInDegrees'') (\<lambda>lon1.
     bnd (self_get ''Ni'') (\<lambda>nx.
     bnd (self_get ''Nj'') (\<lambda>ny.
     bnd (bnd (self_get ''Dx'') (\<lambda>v. py_div_float v 1000)) (\<lambda>dx.
     bnd (bnd (self_get ''Dy'') (\<lambda>v. py_div_float v 1000)) (\<lambda>dy.
     bnd (bnd (self_get ''grib2divider'') py_float) (\<lambda>scale.
     bnd (scaled_degrees self_get ''LoV'' scale) (\<lambda>lon_0.
     bnd (scaled_degrees self_get ''LaD'' scale) (\<lambda>lat_0.
     bnd (scaled_degrees self_get ''Latin1'' scale) (\<lambda>lat_1.
     bnd (scaled_degrees self_get ''Latin2'' scale) (\<lambda>lat_2.
       let projparams = projparams(''proj'' \<mapsto> PyString ''aea'', ''lon_0'' \<mapsto> lon_0,
             ''lat_0'' \<mapsto> lat_0, ''lat_1'' \<mapsto> lat_1, ''lat_2'' \<mapsto> lat_2)
       in bnd (Proj pyproj projparams) (\<lambda>pj.
          bnd (forward pyproj pj lon1 lat1) (\<lambda>(llcrnrx, llcrnry).
          bnd (xy_grid pyproj pj llcrnrx llcrnry (PyDouble dx) (PyDouble dy) nx ny) (\<lambda>(lats, lons).
            Inr (lats, lons, projparams)))))))))))))))"

definition py_ne :: "pyvalue \<Rightarrow> pyvalue \<Rightarrow> error + bool" where
  \<comment> \<open>the truth of \<^verbatim>\<open>a != b\<close>\<close>
  "py_ne a b =
     (case (a, b) of
        (PyLong x, PyLong y) \<Rightarrow> Inr (x \<noteq> y)
      | (PyLong x, PyDouble y) \<Rightarrow> Inr (real_of_int x \<noteq> y)
      | (PyDouble x, PyLong y) \<Rightarrow> Inr (x \<noteq> real_of_int y)
      | (PyDouble x, PyDouble y) \<Rightarrow> Inr (x \<noteq> y)
      | (PyArray x, _) \<Rightarrow> Inl (Unmodelled ''comparison of arrays'')
      | (_, PyArray y) \<Rightarrow> Inl (Unmodelled ''comparison of arrays'')
      | (PyMasked x v, _) \<Rightarrow> Inl (Unmodelled ''comparison of arrays'')
      | (_, PyMasked y w) \<Rightarrow> Inl (Unmodelled ''comparison of arrays'')
      | _ \<Rightarrow> Inr (a \<noteq> b))"

definition horizon :: "real \<Rightarrow> real \<Rightarrow> error + real" where
  \<comment> \<open>\<^verbatim>\<open>90.-(180./np.pi)*np.arcsin(r/h)\<close>, then truncated to a thousandth of a degree:
      \<^verbatim>\<open>int(1000*v)/1000.\<close>\<close>
  "horizon r h =
     (if h = 0 then Inl (ZeroDivisionError ''float division'')
      else if 1 < \<bar>r / h\<bar> then Inl (Unmodelled ''arcsin outside its domain'')
      else Inr (real_of_int (py_int (1000 * (90 - (180 / pi) * arcsin (r / h)))) / 1000))"

definition centred :: "real list list \<Rightarrow> error + real list list" where
  \<comment> \<open>\<^verbatim>\<open>x = x - 0.5*x.max()\<close>\<close>
  "centred x =
     (if concat x = [] then Inl (ValueError ''zero-size array to maximum'')
      else Inr (map (map (\<lambda>v. v - 0.5 * Max (set (concat x)))) x))"

definition off_disk :: "real list list \<Rightarrow> real list list" where
  \<comment> \<open>\<^verbatim>\<open>np.where(np.fabs(v) < 1.e20, v, 1.e30)\<close>\<close>
  "off_disk v = map (map (\<lambda>c. if \<bar>c\<bar> < 10 ^ 20 then c else 10 ^ 30)) v"

definition latlons_space_view ::
  "'pj pyproj_api \<Rightarrow> (string \<Rightarrow> error + pyvalue) \<Rightarrow> pyvalue \<Rightarrow> pyvalue \<Rightarrow> (string \<rightharpoonup> pyvalue)
     \<Rightarrow> error + grid" where
  \<comment> \<open>\<^verbatim>\<open>a\<close> and \<^verbatim>\<open>b\<close> are \<^verbatim>\<open>projparams['a']\<close> and \<^verbatim>\<open>projparams['b']\<close>\<close>
  "latlons_space_view pyproj self_get a b projparams =
     bnd (self_get ''Ni'') (\<lambda>nx.
     bnd (self_get ''Nj'') (\<lambda>ny.
     bnd (self_get ''longitudeOfSubSatellitePointInDegrees'') (\<lambda>lon_0.
     bnd (self_get ''latitudeOfSubSatellitePointInDegrees'') (\<lambda>lat_0.
     bnd (if_m (py_eq_long lat_0 0) (Inr ''geos'')
            (if_m (py_ne a b)
               (Inl (ValueError ''unsupported grid - earth not a perfect sphere''))
               (Inr ''nsper''))) (\<lambda>proj.
     bnd (bnd (self_get ''grib2divider'') py_float) (\<lambda>scale.
     bnd (self_get ''altitudeOfTheCameraFromTheEarthSCenterMeasuredInUnitsOfTheEarth'')
       (\<lambda>altitude.
     bnd (as_c_double a) (\<lambda>ra.
     bnd (as_c_double altitude) (\<lambda>altitude.
     bnd (if scale = 0 then Inl (ZeroDivisionError ''float division'')
          else Inr (ra * altitude / scale)) (\<lambda>h.
     bnd (horizon ra h) (\<lambda>lonmax.
     bnd (as_c_double b) (\<lambda>rb.
     bnd (horizon rb h) (\<lambda>latmax.
       let projparams = projparams(''lon_0'' \<mapsto> lon_0, ''lat_0'' \<mapsto> lat_0,
             ''proj'' \<mapsto> PyString proj, ''h'' \<mapsto> PyDouble (h - ra))
       in bnd (Proj pyproj projparams) (\<lambda>pj.
          bnd (proj_forward pyproj pj 0 latmax) (\<lambda>(x1, y1).
          bnd (proj_forward pyproj pj lonmax 0) (\<lambda>(x2, y2).
          bnd (bnd (self_get ''apparentDiameterOfEarthInGridLengthsInXDirection'')
                 (\<lambda>d. bnd (as_c_double d) (\<lambda>d.
                    if d = 0 then Inl (ZeroDivisionError ''float division'')
                    else Inr (2 * x2 / d)))) (\<lambda>dx.
          bnd (bnd (self_get ''apparentDiameterOfEarthInGridLengthsInYDirection'')
                 (\<lambda>d. bnd (as_c_double d) (\<lambda>d.
                    if d = 0 then Inl (ZeroDivisionError ''float division'')
                    else Inr (2 * y1 / d)))) (\<lambda>dy.
          bnd (as_c_long ny) (\<lambda>rows.
          bnd (as_c_long nx) (\<lambda>cols.
          bnd (centred (map (\<lambda>j. map (\<lambda>i. dx * real i) [0..<nat cols]) [0..<nat rows])) (\<lambda>x.
          bnd (centred (map (\<lambda>j. map (\<lambda>i. dy * real j) [0..<nat cols]) [0..<nat rows])) (\<lambda>y.
          bnd (proj_inverse pyproj pj x y) (\<lambda>(lons, lats).
            Inr (NdDouble (A2 (off_disk lats)), NdDouble (A2 (off_disk lons)),
                 projparams))))))))))))))))))))))))"

definition latlons_azimuthal ::
  "'pj pyproj_api \<Rightarrow> (string \<Rightarrow> error + pyvalue) \<Rightarrow> string \<Rightarrow> (string \<rightharpoonup> pyvalue) \<Rightarrow> error + grid" where
  \<comment> \<open>the branches of \<^verbatim>\<open>"equatorial_azimuthal_equidistant"\<close> (\<open>proj\<close> is
      \<^verbatim>\<open>'aeqd'\<close>) and \<^verbatim>\<open>"lambert_azimuthal_equal_area"\<close> (\<^verbatim>\<open>'laea'\<close>), which
      differ in that name only. The names \<^verbatim>\<open>nx\<close> and \<^verbatim>\<open>ny\<close> are assigned in other
      branches of \<^verbatim>\<open>latlons\<close> only, so \<^verbatim>\<open>np.arange(nx)\<close> reads a local variable
      that has no value yet.\<close>
  "latlons_azimuthal pyproj self_get proj projparams =
     bnd (bnd (self_get ''standardParallel'') (\<lambda>v. py_div_float v (10 ^ 6))) (\<lambda>lat_0.
     bnd (bnd (self_get ''centralLongitude'') (\<lambda>v. py_div_float v (10 ^ 6))) (\<lambda>lon_0.
     bnd (bnd (self_get ''Dx'') (\<lambda>v. py_div_float v (10 ^ 3))) (\<lambda>dx.
     bnd (bnd (self_get ''Dy'') (\<lambda>v. py_div_float v (10 ^ 3))) (\<lambda>dy.
     bnd (self_get ''latitudeOfFirstGridPointInDegrees'') (\<lambda>lat1.
     bnd (self_get ''longitudeOfFirstGridPointInDegrees'') (\<lambda>lon1.
       let projparams = projparams(''lat_0'' \<mapsto> PyDouble lat_0, ''lon_0'' \<mapsto> PyDouble lon_0,
             ''proj'' \<mapsto> PyString proj)
       in bnd (Proj pyproj projparams) (\<lambda>pj.
          bnd (forward pyproj pj lon1 lat1) (\<lambda>(llcrnrx, llcrnry).
          let nx = unassigned; ny = unassigned
          in bnd (axis llcrnrx (PyDouble dx) nx) (\<lambda>x.
             bnd (axis llcrnry (PyDouble dy) ny) (\<lambda>y.
             bnd (invert pyproj pj x y) (\<lambda>(lats, lons).
               Inr (lats, lons, projparams))))))))))))"

definition latlons_mercator ::
  "'pj pyproj_api \<Rightarrow> (string \<Rightarrow> error + pyvalue) \<Rightarrow> (string \<rightharpoonup> pyvalue) \<Rightarrow> error + grid" where
  "latlons_mercator pyproj self_get projparams =
     bnd (bnd (self_get ''grib2divider'') py_float) (\<lambda>scale.
     bnd (scaled_degrees self_get ''latitudeOfFirstGridPoint'' scale) (\<lambda>lat1.
     bnd (scaled_degrees self_get ''longitudeOfFirstGridPoint'' scale) (\<lambda>lon1.
     bnd (scaled_degrees self_get ''latitudeOfLastGridPoint'' scale) (\<lambda>lat2.
     bnd (scaled_degrees self_get ''longitudeOfLastGridPoint'' scale) (\<lambda>lon2.
     bnd (bnd (self_get ''latitudeSAtWhichTheMercatorProjectionIntersectsTheEarth'')
            (\<lambda>v. py_div_float v scale)) (\<lambda>lat_ts.
     bnd (as_c_double lon1) (\<lambda>l1.
     bnd (as_c_double lon2) (\<lambda>l2.
       let projparams = projparams(''lat_ts'' \<mapsto> PyDouble lat_ts,
             ''lon_0'' \<mapsto> PyDouble (0.5 * (l1 + l2)), ''proj'' \<mapsto> PyString ''merc'')
       in bnd (Proj pyproj projparams) (\<lambda>pj.
          bnd (forward pyproj pj lon1 lat1) (\<lambda>(llcrnrx, llcrnry).
          bnd (forward pyproj pj lon2 lat2) (\<lambda>(urcrnrx, urcrnry).
          bnd (self_get ''Ni'') (\<lambda>nx.
          bnd (self_get ''Nj'') (\<lambda>ny.
          bnd (as_c_long nx) (\<lambda>cols.
            if cols - 1 = 0 then Inl (ZeroDivisionError ''float division'')
            else
              bnd (as_c_long ny) (\<lambda>rows.
                if rows - 1 = 0 then Inl (ZeroDivisionError ''float division'')
                else
                  bnd (xy_grid pyproj pj llcrnrx llcrnry
                         (PyDouble ((urcrnrx - llcrnrx) / real_of_int (cols - 1)))
                         (PyDouble ((urcrnry - llcrnry) / real_of_int (rows - 1))) nx ny)
                    (\<lambda>(lats, lons). Inr (lats, lons, projparams)))))))))))))))))"

definition latlons_body ::
  "'pj pyproj_api \<Rightarrow> 'h gribmessage \<Rightarrow> (string \<Rightarrow> error + pyvalue)
     \<Rightarrow> error + (ndarray \<times> ndarray) \<times> 'h gribmessage" where
  \<comment> \<open>the body of \<^verbatim>\<open>latlons(self)\<close>: the result \<^verbatim>\<open>lats, lons\<close> and the message with
      \<^verbatim>\<open>self.projparams\<close> stored\<close>
  "latlons_body pyproj self self_get =
     bnd (earth_shape self self_get) (\<lambda>(a, b).
       let projparams = [''a'' \<mapsto> a, ''b'' \<mapsto> b]
       in bnd
         (if_m (grid_in self_get [''regular_gg'', ''regular_ll''])
            (latlons_regular self_get projparams)
         (if_m (grid_is self_get ''reduced_gg'')
            (latlons_reduced_gg self_get projparams)
         (if_m (grid_is self_get ''reduced_ll'')
            (latlons_reduced_ll self_get projparams)
         (if_m (grid_is self_get ''polar_stereographic'')
            (latlons_polar_stereographic pyproj self_get projparams)
         (if_m (grid_is self_get ''lambert'')
            (latlons_lambert pyproj self_get projparams)
         (if_m (grid_is self_get ''albers'')
            (latlons_albers pyproj self_get projparams)
         (if_m (grid_is self_get ''space_view'')
            (latlons_space_view pyproj self_get a b projparams)
         (if_m (grid_is self_get ''equatorial_azimuthal_equidistant'')
            (latlons_azimuthal pyproj self_get ''aeqd'' projparams)
         (if_m (grid_is self_get ''lambert_azimuthal_equal_area'')
            (latlons_azimuthal pyproj self_get ''laea'' projparams)
         (if_m (grid_is self_get ''mercator'')
            (latlons_mercator pyproj self_get projparams)
            (Inl (ValueError ''unsupported grid''))))))))))))
         (\<lambda>(lats, lons, projparams).
            Inr ((lats, lons), self\<lparr>self_projparams := Some projparams\<rparr>)))"

definition latlons ::
  "nat \<Rightarrow> 'h grib_api \<Rightarrow> 'pj pyproj_api \<Rightarrow> 'h gribmessage
     \<Rightarrow> error + (ndarray \<times> ndarray) \<times> 'h gribmessage" where
  \<comment> \<open>\<^verbatim>\<open>self.latlons()\<close> with \<open>depth\<close> nested calls left for its reads of keys\<close>
  "latlons depth api pyproj self = latlons_body pyproj self (getitem depth api self)"

subsection \<open>\<^verbatim>\<open>_unshape_mask\<close> and \<^verbatim>\<open>__setitem__\<close>\<close>

definition asarray_long :: "pyvalue \<Rightarrow> error + int nd" where
  \<comment> \<open>\<^verbatim>\<open>np.asarray(value, np.int)\<close>: a float is truncated, the mask of a masked array
      is dropped\<close>
  "asarray_long value =
     (case value of
        PyLong n \<Rightarrow>
          if fits_long n then Inr (A0 n)
          else Inl (OverflowError ''Python int too large to convert to C long'')
      | PyDouble x \<Rightarrow> Inr (A0 (py_int x))
      | PyArray (NdLong a) \<Rightarrow> Inr a
      | PyArray (NdDouble a) \<Rightarrow> Inr (map_nd py_int a)
      | PyMasked (NdLong a) w \<Rightarrow> Inr a
      | PyMasked (NdDouble a) w \<Rightarrow> Inr (map_nd py_int a)
      | PyNone \<Rightarrow> Inl (TypeError ''long() argument must be a string or a number'')
      | PyString s \<Rightarrow> Inl (Unmodelled ''the integer that a string spells''))"

definition double_of_long :: "(real \<Rightarrow> double) \<Rightarrow> int \<Rightarrow> error + real" where
  \<comment> \<open>the float nearest to a Python integer\<close>
  "double_of_long rnd n =
     (case rnd (real_of_int n) of
        Finite x \<Rightarrow> Inr x
      | _ \<Rightarrow> Inl (OverflowError ''long int too large to convert to float''))"

definition doubles_of_longs :: "(real \<Rightarrow> double) \<Rightarrow> int nd \<Rightarrow> error + real nd" where
  \<comment> \<open>the conversion of an integer array to a float array, element by element\<close>
  "doubles_of_longs rnd a =
     (if list_all (\<lambda>n. is_finite (rnd (real_of_int n))) (flat a)
      then Inr (map_nd (\<lambda>n. the_real (rnd (real_of_int n))) a)
      else Inl (OverflowError ''long int too large to convert to float''))"

definition asarray_double :: "(real \<Rightarrow> double) \<Rightarrow> pyvalue \<Rightarrow> error + real nd" where
  \<comment> \<open>\<^verbatim>\<open>np.asarray(value, np.float)\<close>\<close>
  "asarray_double rnd value =
     (case value of
        PyLong n \<Rightarrow> bnd (double_of_long rnd n) (\<lambda>x. Inr (A0 x))
      | PyDouble x \<Rightarrow> Inr (A0 x)
      | PyArray (NdLong a) \<Rightarrow> doubles_of_longs rnd a
      | PyArray (NdDouble a) \<Rightarrow> Inr a
      | PyMasked (NdLong a) w \<Rightarrow> doubles_of_longs rnd a
      | PyMasked (NdDouble a) w \<Rightarrow> Inr a
      | PyNone \<Rightarrow> Inl (TypeError ''float() argument must be a string or a number'')
      | PyString s \<Rightarrow> Inl (Unmodelled ''the number that a string spells''))"

definition value_as_long :: "pyvalue \<Rightarrow> error + int" where
  \<comment> \<open>\<^verbatim>\<open>longval = value\<close>: the conversion of the Python value to a C \<^verbatim>\<open>long\<close>\<close>
  "value_as_long value =
     (case value of
        PyLong n \<Rightarrow>
          if fits_long n then Inr n
          else Inl (OverflowError ''Python int too large to convert to C long'')
      | PyNone \<Rightarrow> Inl (TypeError ''an integer is required'')
      | PyString s \<Rightarrow> Inl (TypeError ''an integer is required'')
      | _ \<Rightarrow> Inl (Unmodelled ''a float or an array where an integer is expected''))"

definition value_as_double :: "(real \<Rightarrow> double) \<Rightarrow> pyvalue \<Rightarrow> error + real" where
  \<comment> \<open>\<^verbatim>\<open>doubleval = value\<close>: the conversion of the Python value to a C \<^verbatim>\<open>double\<close>\<close>
  "value_as_double rnd value =
     (case value of
        PyLong n \<Rightarrow> double_of_long rnd n
      | PyDouble x \<Rightarrow> Inr x
      | PyNone \<Rightarrow> Inl (TypeError ''a float is required'')
      | PyString s \<Rightarrow> Inl (TypeError ''a float is required'')
      | _ \<Rightarrow> Inl (Unmodelled ''an array where a number is expected''))"

definition unshape_mask ::
  "'h gribmessage \<Rightarrow> (string \<Rightarrow> error + pyvalue) \<Rightarrow> ndarray \<Rightarrow> error + ndarray" where
  \<comment> \<open>\<^verbatim>\<open>_unshape_mask(self, datarr)\<close> on the plain array that \<^verbatim>\<open>np.asarray\<close> returned,
      which has no attribute \<^verbatim>\<open>mask\<close>. As in \<open>reshape_mask\<close>, the three flips are
      applied once the three flags are read.\<close>
  "unshape_mask self self_get datarr =
     (if nd_ndim datarr > 2 then Inl (ValueError ''array must be 1d or 2d'')
      else
        bnd (if has_key self ''typeOfGrid'' then
               bnd (self_get ''typeOfGrid'') (\<lambda>g. py_startswith g ''reduced'')
             else Inr False) (\<lambda>reduced.
          if reduced \<and> nd_ndim datarr \<noteq> 1 then
            Inl (ValueError ''reduced grid data array must be 1d'')
          else if nd_ndim datarr = 2 then
            bnd (scan_flag self_get ''jScansPositively'') (\<lambda>js.
            bnd (scan_flag self_get ''iScansNegatively'') (\<lambda>is.
            bnd (scan_flag self_get ''alternativeRowScanning'') (\<lambda>al.
              Inr (nd_unshape_scan js is al datarr))))
          else Inr datarr))"

text \<open>
  The two numeric branches of \<^verbatim>\<open>__setitem__\<close> first decide what to write: a scalar
  (\<open>Inl\<close>) or the buffer of an array (\<open>Inr\<close>). The statement \<^verbatim>\<open>is_array == False\<close>
  is a comparison whose result is dropped: it reads the local variable \<^verbatim>\<open>is_array\<close>,
  which is still unassigned, and changes nothing. So \<^verbatim>\<open>is_array\<close> is \<^verbatim>\<open>True\<close> for a
  value with a shape and unassigned otherwise, when \<^verbatim>\<open>if not is_array\<close> tests it.
  \<^verbatim>\<open>datarr.data\<close> of the contiguous array (the copy, when the array was not
  contiguous) is the list of the elements in C order.
\<close>

definition long_to_write ::
  "'h gribmessage \<Rightarrow> (string \<Rightarrow> error + pyvalue) \<Rightarrow> string \<Rightarrow> pyvalue \<Rightarrow> error + (int + int list)" where
  "long_to_write self self_get key value =
     bnd (asarray_long value) (\<lambda>datarr.
       let is_array = unassigned;
           is_array = (if ndim datarr \<noteq> 0 then py_True else is_array)
       in bnd (py_truth is_array) (\<lambda>is_array.
            if \<not> is_array then bnd (value_as_long value) (\<lambda>longval. Inr (Inl longval))
            else
              bnd (if key = ''values'' then unshape_mask self self_get (NdLong datarr)
                   else Inr (NdLong datarr)) (\<lambda>datarr.
                case datarr of
                  NdLong a \<Rightarrow> Inr (Inr (flat a))
                | NdDouble a \<Rightarrow> Inl MemoryFault)))"

definition double_to_write ::
  "(real \<Rightarrow> double) \<Rightarrow> 'h gribmessage \<Rightarrow> (string \<Rightarrow> error + pyvalue) \<Rightarrow> string \<Rightarrow> pyvalue
     \<Rightarrow> error + (real + real list)" where
  "double_to_write rnd self self_get key value =
     bnd (asarray_double rnd value) (\<lambda>datarr.
       let is_array = unassigned;
           is_array = (if ndim datarr \<noteq> 0 then py_True else is_array)
       in bnd (py_truth is_array) (\<lambda>is_array.
            if \<not> is_array then bnd (value_as_double rnd value) (\<lambda>doubleval. Inr (Inl doubleval))
            else
              bnd (if key = ''values'' then unshape_mask self self_get (NdDouble datarr)
                   else Inr (NdDouble datarr)) (\<lambda>datarr.
                case datarr of
                  NdDouble a \<Rightarrow> Inr (Inr (flat a))
                | NdLong a \<Rightarrow> Inl MemoryFault)))"

text \<open>
  \<^verbatim>\<open>__setitem__\<close> returns the exception it raised, if any, the message with the new
  state of the handle, and the calls of the decoder it made itself, in order.
\<close>

datatype call =
    Get_native_type string
  | Set_long string int
  | Set_long_array string "int list"
  | Set_double string real
  | Set_double_array string "real list"
  | Set_string string string

definition written ::
  "'h grib_api \<Rightarrow> 'h gribmessage \<Rightarrow> call list \<Rightarrow> int \<times> 'h \<Rightarrow> (error + unit) \<times> 'h gribmessage \<times> call list" where
  \<comment> \<open>after a write of the decoder: \<^verbatim>\<open>if err: raise RuntimeError(...)\<close>\<close>
  "written api self calls r =
     (case r of (err, h) \<Rightarrow>
        (if err \<noteq> 0 then Inl (raise_grib api err) else Inr (), self\<lparr>self_gh := h\<rparr>, calls))"

definition setitem_body ::
  "'h grib_api \<Rightarrow> 'h gribmessage \<Rightarrow> (string \<Rightarrow> error + pyvalue) \<Rightarrow> string \<Rightarrow> pyvalue
     \<Rightarrow> (error + unit) \<times> 'h gribmessage \<times> call list" where
  \<comment> \<open>the body of \<^verbatim>\<open>__setitem__(self, key, value)\<close>\<close>
  "setitem_body api self self_get key value =
     (if key \<in> set (self_ro_keys self) then
        (Inl (KeyError (''key '' @ [CHR 0x22] @ key @ [CHR 0x22] @ '' is read only'')), self, [])
      else if key \<notin> set (self_all_keys self) then
        (Inl (KeyError (''can only modify existing grib keys (key '' @ [CHR 0x22] @ key
           @ [CHR 0x22] @ '' not found)'')), self, [])
      else
        (case grib_get_native_type api (self_gh self) key of (err, type) \<Rightarrow>
         if err \<noteq> 0 then (Inl (raise_grib api err), self, [Get_native_type key])
         else if type = GRIB_TYPE_LONG then
           (case long_to_write self self_get key value of
              Inl e \<Rightarrow> (Inl e, self, [Get_native_type key])
            | Inr (Inl longval) \<Rightarrow>
                written api self [Get_native_type key, Set_long key longval]
                  (grib_set_long api (self_gh self) key longval)
            | Inr (Inr buf) \<Rightarrow>
                written api self [Get_native_type key, Set_long_array key buf]
                  (grib_set_long_array api (self_gh self) key buf))
         else if type = GRIB_TYPE_DOUBLE then
           (case double_to_write (round_double api) self self_get key value of
              Inl e \<Rightarrow> (Inl e, self, [Get_native_type key])
            | Inr (Inl doubleval) \<Rightarrow>
                written api self [Get_native_type key, Set_double key doubleval]
                  (grib_set_double api (self_gh self) key doubleval)
            | Inr (Inr buf) \<Rightarrow>
                written api self [Get_native_type key, Set_double_array key buf]
                  (grib_set_double_array api (self_gh self) key buf))
         else if type = GRIB_TYPE_STRING then
           (case value of
              PyString strdata \<Rightarrow>
                written api self [Get_native_type key, Set_string key strdata]
                  (grib_set_string api (self_gh self) key strdata)
            | PyLong n \<Rightarrow> (Inl (TypeError ''object has no len()''), self, [Get_native_type key])
            | PyDouble x \<Rightarrow> (Inl (TypeError ''object has no len()''), self, [Get_native_type key])
            | PyNone \<Rightarrow> (Inl (TypeError ''object has no len()''), self, [Get_native_type key])
            | _ \<Rightarrow> (Inl (TypeError ''expected string''), self, [Get_native_type key]))
         else (Inl (ValueError ''unrecognized grib type''), self, [Get_native_type key])))"

definition setitem ::
  "nat \<Rightarrow> 'h grib_api \<Rightarrow> 'h gribmessage \<Rightarrow> string \<Rightarrow> pyvalue
     \<Rightarrow> (error + unit) \<times> 'h gribmessage \<times> call list" where
  \<comment> \<open>\<^verbatim>\<open>self[key] = value\<close> with \<open>depth\<close> nested calls left for its reads of keys\<close>
  "setitem depth api self key value = setitem_body api self (getitem depth api self) key value"

subsection \<open>What a result looks like\<close>

definition raises_TypeError :: "error + 'a \<Rightarrow> bool" where
  \<comment> \<open>the call raised \<^verbatim>\<open>TypeError\<close>, with whatever message\<close>
  "raises_TypeError r = (case r of Inl (TypeError msg) \<Rightarrow> True | _ \<Rightarrow> False)"

definition is_masked :: "pyvalue \<Rightarrow> bool" where
  \<comment> \<open>the value is a masked array\<close>
  "is_masked v = (case v of PyMasked data value \<Rightarrow> True | _ \<Rightarrow> False)"

definition value_ndim :: "pyvalue \<Rightarrow> nat" where
  \<comment> \<open>the number of dimensions of a value: \<^verbatim>\<open>np.ndim(v)\<close>\<close>
  "value_ndim v =
     (case v of PyArray data \<Rightarrow> nd_ndim data | PyMasked data value \<Rightarrow> nd_ndim data | _ \<Rightarrow> 0)"

subsection \<open>A decoder and a projection for the examples\<close>

text \<open>
  The examples below run the functions on a small decoder: a handle is the list of its
  keys with their values, and the list of the names that are read-only. The numbers of the
  examples are doubles and so are the results of the arithmetic on them, so the rounding
  of the examples changes nothing. The projection of the examples maps every point to
  itself.
\<close>

datatype sample_value =
    SLong int
  | SLongs "int list"
  | SDouble real
  | SDoubles "real list"
  | SString string
  | SOther grib_type

type_synonym sample_handle = "(string \<times> sample_value) list \<times> string list"

definition sample_type :: "sample_value \<Rightarrow> grib_type" where
  "sample_type v =
     (case v of
        SLong n \<Rightarrow> GRIB_TYPE_LONG
      | SLongs ns \<Rightarrow> GRIB_TYPE_LONG
      | SDouble x \<Rightarrow> GRIB_TYPE_DOUBLE
      | SDoubles xs \<Rightarrow> GRIB_TYPE_DOUBLE
      | SString s \<Rightarrow> GRIB_TYPE_STRING
      | SOther t \<Rightarrow> t)"

definition sample_size :: "sample_value \<Rightarrow> nat" where
  "sample_size v = (case v of SLongs ns \<Rightarrow> length ns | SDoubles xs \<Rightarrow> length xs | _ \<Rightarrow> 1)"

definition sample_missing_long :: int where
  \<comment> \<open>the value of \<^verbatim>\<open>GRIB_MISSING_LONG\<close> in the decoder of the examples\<close>
  "sample_missing_long = 4294967295"

definition sample_api :: "sample_handle grib_api" where
  "sample_api =
     \<lparr> grib_get_size = (\<lambda>h key.
         case map_of (fst h) key of None \<Rightarrow> (-10, 0) | Some v \<Rightarrow> (0, sample_size v)),
       grib_get_native_type = (\<lambda>h key.
         case map_of (fst h) key of None \<Rightarrow> (-10, GRIB_TYPE_UNDEFINED)
         | Some v \<Rightarrow> (0, sample_type v)),
       grib_get_long = (\<lambda>h key.
         case map_of (fst h) key of Some (SLong n) \<Rightarrow> (0, n) | _ \<Rightarrow> (-10, 0)),
       grib_get_long_array = (\<lambda>h key n.
         case map_of (fst h) key of Some (SLongs ns) \<Rightarrow> (0, ns) | _ \<Rightarrow> (-10, [])),
       grib_get_double = (\<lambda>h key.
         case map_of (fst h) key of Some (SDouble x) \<Rightarrow> (0, x) | _ \<Rightarrow> (-10, 0)),
       grib_get_double_array = (\<lambda>h key n.
         case map_of (fst h) key of Some (SDoubles xs) \<Rightarrow> (0, xs) | _ \<Rightarrow> (-10, [])),
       grib_get_string = (\<lambda>h key n.
         case map_of (fst h) key of Some (SString s) \<Rightarrow> (0, s) | _ \<Rightarrow> (-10, [])),
       grib_set_long = (\<lambda>h key n. (0, ((key, SLong n) # fst h, snd h))),
       grib_set_long_array = (\<lambda>h key ns. (0, ((key, SLongs ns) # fst h, snd h))),
       grib_set_double = (\<lambda>h key x. (0, ((key, SDouble x) # fst h, snd h))),
       grib_set_double_array = (\<lambda>h key xs. (0, ((key, SDoubles xs) # fst h, snd h))),
       grib_set_string = (\<lambda>h key s. (0, ((key, SString s) # fst h, snd h))),
       grib_keys_iterator_names = (\<lambda>h flags.
         case flags of
           GRIB_KEYS_ITERATOR_ALL_KEYS \<Rightarrow> map fst (fst h)
         | GRIB_KEYS_ITERATOR_SKIP_READ_ONLY \<Rightarrow> filter (\<lambda>key. key \<notin> set (snd h)) (map fst (fst h))),
       grib_keys_iterator_delete = (\<lambda>h flags. 0),
       grib_get_error_message = (\<lambda>err. ''Key/value not found''),
       GRIB_MISSING_LONG = sample_missing_long,
       GRIB_MISSING_DOUBLE = - (2 ^ 63),
       round_double = Finite,
       beyond_buffer = (\<lambda>k. None) \<rparr>"

definition sample_pyproj :: "unit pyproj_api" where
  "sample_pyproj =
     \<lparr> Proj = (\<lambda>projparams. Inr ()),
       proj_forward = (\<lambda>pj lon lat. Inr (lon, lat)),
       proj_inverse = (\<lambda>pj x y. Inr (x, y)) \<rparr>"

definition sample_keys :: "sample_handle \<Rightarrow> string list" where
  "sample_keys h =
     map fst (filter (\<lambda>(key, v). key \<notin> set ignored_names \<and> sample_type v \<notin> set ignored_types)
       (fst h))"

definition sample_message :: "sample_handle \<Rightarrow> sample_handle gribmessage" where
  \<comment> \<open>the message that \<open>new_gribmessage sample_api h 1\<close> returns when no key occurs
      twice in \<open>h\<close>\<close>
  "sample_message h =
     \<lparr> self_gh = h,
       self_messagenumber = 1,
       self_projparams = None,
       self_missingvalue_int = sample_missing_long,
       self_missingvalue_float = - (2 ^ 63),
       self_expand_reduced = True,
       self_ro_keys = filter (\<lambda>key. key \<in> set (snd h)) (sample_keys h),
       self_all_keys = sample_keys h \<rparr>"

definition sample_keys_handle :: sample_handle where
  \<comment> \<open>a handle with a read-only key, two writable keys and two keys of ignored types\<close>
  "sample_keys_handle =
     ([(''Ni'', SLong 2), (''level'', SLong 500), (''name'', SString ''Temperature''),
       (''section1Padding'', SOther GRIB_TYPE_LABEL), (''unused'', SOther GRIB_TYPE_UNDEFINED)],
      [''Ni''])"

definition sample_earth_handle :: sample_handle where
  \<comment> \<open>an oblate earth (shape 3) whose two scale factors are missing\<close>
  "sample_earth_handle =
     ([(''shapeOfTheEarth'', SLong 3),
       (''scaleFactorOfMajorAxisOfOblateSpheroidEarth'', SLong sample_missing_long),
       (''scaleFactorOfMinorAxisOfOblateSpheroidEarth'', SLong sample_missing_long),
       (''scaledValueOfMajorAxisOfOblateSpheroidEarth'', SLong 6378137),
       (''scaledValueOfMinorAxisOfOblateSpheroidEarth'', SLong 6356752)], [])"

definition sample_regular_handle :: sample_handle where
  \<comment> \<open>a regular latitude/longitude grid of two rows and three columns, one value missing\<close>
  "sample_regular_handle =
     ([(''shapeOfTheEarth'', SLong 0),
       (''typeOfGrid'', SString ''regular_ll''),
       (''Ni'', SLong 3), (''Nj'', SLong 2),
       (''distinctLongitudes'', SDoubles [0, 1.5, 3]),
       (''distinctLatitudes'', SDoubles [20, 10]),
       (''jScansPositively'', SLong 0), (''iScansNegatively'', SLong 0),
       (''alternativeRowScanning'', SLong 0),
       (''missingValue'', SDouble 9999), (''numberOfMissing'', SLong 1),
       (''values'', SDoubles [1, 2, 9999, 4, 5, 6])], [''numberOfMissing''])"

definition sample_unknown_earth_handle :: sample_handle where
  \<comment> \<open>the regular grid above with an earth of shape 4\<close>
  "sample_unknown_earth_handle =
     ([(''shapeOfTheEarth'', SLong 4),
       (''typeOfGrid'', SString ''regular_ll''),
       (''Ni'', SLong 3), (''Nj'', SLong 2),
       (''distinctLongitudes'', SDoubles [0, 1.5, 3]),
       (''distinctLatitudes'', SDoubles [20, 10])], [])"

definition sample_azimuthal_handle :: sample_handle where
  \<comment> \<open>a Lambert azimuthal equal-area grid\<close>
  "sample_azimuthal_handle =
     ([(''shapeOfTheEarth'', SLong 0),
       (''typeOfGrid'', SString ''lambert_azimuthal_equal_area''),
       (''Ni'', SLong 3), (''Nj'', SLong 2),
       (''standardParallel'', SLong 52000000), (''centralLongitude'', SLong 10000000),
       (''Dx'', SLong 5000000), (''Dy'', SLong 5000000),
       (''latitudeOfFirstGridPointInDegrees'', SDouble 30),
       (''longitudeOfFirstGridPointInDegrees'', SDouble 5)], [])"

definition sample_equidistant_handle :: sample_handle where
  \<comment> \<open>an azimuthal equidistant grid centred on the equator\<close>
  "sample_equidistant_handle =
     ([(''shapeOfTheEarth'', SLong 0),
       (''typeOfGrid'', SString ''equatorial_azimuthal_equidistant''),
       (''Ni'', SLong 3), (''Nj'', SLong 2),
       (''standardParallel'', SLong 0), (''centralLongitude'', SLong 10000000),
       (''Dx'', SLong 5000000), (''Dy'', SLong 5000000),
       (''latitudeOfFirstGridPointInDegrees'', SDouble (- 10)),
       (''longitudeOfFirstGridPointInDegrees'', SDouble 5)], [])"

definition sample_reduced_handle :: sample_handle where
  \<comment> \<open>a reduced gaussian grid of two rows, of two and four points, one value missing\<close>
  "sample_reduced_handle =
     ([(''shapeOfTheEarth'', SLong 0),
       (''typeOfGrid'', SString ''reduced_gg''),
       (''Ni'', SLong sample_missing_long), (''Nj'', SLong 2),
       (''pl'', SLongs [2, 4]),
       (''distinctLatitudes'', SDoubles [45, - 45]),
       (''longitudeOfFirstGridPointInDegrees'', SDouble 0),
       (''longitudeOfLastGridPointInDegrees'', SDouble 270),
       (''jScansPositively'', SLong 0), (''iScansNegatively'', SLong 0),
       (''alternativeRowScanning'', SLong 0),
       (''missingValue'', SDouble 9999), (''numberOfMissing'', SLong 1),
       (''values'', SDoubles [1, 9999, 3, 4, 5, 6])], [''numberOfMissing''])"


section \<open>Properties\<close>

lemma bnd_Inl [simp]: "bnd (Inl e) f = Inl e"
  by (simp add: bnd_def)

lemma bnd_Inr [simp]: "bnd (Inr x) f = f x"
  by (simp add: bnd_def)

lemma bnd_eq_Inr: "bnd r f = Inr y \<longleftrightarrow> (\<exists>x. r = Inr x \<and> f x = Inr y)"
  by (cases r) simp_all

subsection \<open>Scan order\<close>

lemma flip_odd_rows_length [simp]: "length (flip_odd_rows rows) = length rows"
  by (simp add: flip_odd_rows_def)

lemma flip_rows_length [simp]: "length (flip_rows rows) = length rows"
  by (simp add: flip_rows_def)

lemma flip_columns_length [simp]: "length (flip_columns rows) = length rows"
  by (simp add: flip_columns_def)

lemma flip_odd_rows_nth:
  "j < length rows \<Longrightarrow> flip_odd_rows rows ! j = (if odd j then rev (rows ! j) else rows ! j)"
  by (simp add: flip_odd_rows_def)

lemma flip_rows_invol: "flip_rows (flip_rows rows) = rows"
  by (simp add: flip_rows_def)

lemma flip_columns_invol: "flip_columns (flip_columns rows) = rows"
  by (simp add: flip_columns_def o_def)

lemma flip_odd_rows_invol: "flip_odd_rows (flip_odd_rows rows) = rows"
  by (rule nth_equalityI) (simp_all add: flip_odd_rows_nth)

lemma flip_odd_columns_commute:
  "flip_odd_rows (flip_columns rows) = flip_columns (flip_odd_rows rows)"
  by (rule nth_equalityI) (simp_all add: flip_odd_rows_nth flip_columns_def)

lemma flip_rows_columns_commute: "flip_rows (flip_columns rows) = flip_columns (flip_rows rows)"
  by (simp add: flip_rows_def flip_columns_def rev_map)

lemma flip_odd_rows_rev:
  assumes "odd (length rows)"
  shows "flip_odd_rows (flip_rows rows) = flip_rows (flip_odd_rows rows)"
proof (rule nth_equalityI)
  show "length (flip_odd_rows (flip_rows rows)) = length (flip_rows (flip_odd_rows rows))"
    by simp
next
  fix j assume "j < length (flip_odd_rows (flip_rows rows))"
  then have j: "j < length rows" by simp
  with assms have "odd (length rows - Suc j) = odd j" by auto
  with j show "flip_odd_rows (flip_rows rows) ! j = flip_rows (flip_odd_rows rows) ! j"
    by (simp add: flip_odd_rows_nth flip_rows_def rev_nth)
qed

text \<open>
  Decoding followed by encoding is the identity when the rows scan positively, when
  adjacent rows do not alternate, or when the number of rows is odd.
\<close>

lemma scan_roundtrip_restricted:
  assumes "jp \<or> \<not> alt \<or> odd (length rows)"
  shows "unshape_scan jp ineg alt (reshape_scan jp ineg alt rows) = rows"
  using assms
  by (auto simp: unshape_scan_def reshape_scan_def flip_odd_rows_invol flip_odd_columns_commute
      flip_rows_columns_commute flip_odd_rows_rev flip_rows_invol flip_columns_invol)

text \<open>
  C1. Decoding (\<^verbatim>\<open>_reshape_mask\<close>) followed by encoding (\<^verbatim>\<open>_unshape_mask\<close>) with the
  same three flags is claimed to give the original array back. Both paths flip in the
  order rows, columns, odd rows. For an even number of rows that scan negatively with
  alternating row direction, the second pass meets the flipped rows at the other parity:
  the array \<open>[[1, 2], [3, 4]]\<close> comes back as \<open>[[2, 1], [4, 3]]\<close>.
\<close>

theorem scan_roundtrip_fails_even_rows:
  "unshape_scan False False True (reshape_scan False False True [[1::int, 2], [3, 4]])
     = [[2, 1], [4, 3]]"
  by (simp add: unshape_scan_def reshape_scan_def flip_rows_def flip_odd_rows_def upt_rec)

subsection \<open>Reduced to regular grid\<close>

lemma ieee_int:
  "ieee_double_rounding rnd \<Longrightarrow> \<bar>k\<bar> \<le> 2 ^ 53 \<Longrightarrow> rnd (real_of_int k) = Finite (real_of_int k)"
  by (simp add: ieee_double_rounding_def)

lemma ieee_bounded:
  "ieee_double_rounding rnd \<Longrightarrow> 0 \<le> x \<Longrightarrow> x \<le> 2 ^ 53 \<Longrightarrow>
   \<exists>y. rnd x = Finite y \<and> 0 \<le> y \<and> y \<le> 2 ^ 53"
  by (simp add: ieee_double_rounding_def)

lemma c_truncate_of_int [simp]: "c_truncate (real_of_int k) = k"
  by (simp add: c_truncate_def)

text \<open>
  In a row as long as the target width the fractional index of column \<open>i\<close> is \<open>i\<close>
  itself when the products \<open>i * nlons\<close> are doubles: the weight of the right neighbour is
  zero, and the cell is the source cell when the two neighbours are finite.
\<close>

lemma redtoreg_zxi_full_row:
  assumes ieee: "ieee_double_rounding rnd" and i: "0 \<le> i" "i < n" and n: "n * n \<le> 2 ^ 53"
  shows "d_div rnd (d_mul rnd (rnd (real_of_int i)) (rnd (real_of_int n))) (rnd (real_of_int n))
         = Finite (real_of_int i)"
proof -
  have n1: "1 \<le> n" using i by simp
  have "n \<le> n * n" using n1 by simp
  with n n1 have nb: "\<bar>n\<bar> \<le> 2 ^ 53" by linarith
  have ib: "\<bar>i\<bar> \<le> 2 ^ 53" using i nb by simp
  have le: "i * n \<le> n * n" using i n1 by (intro mult_right_mono) auto
  have "0 \<le> i * n" using i n1 by simp
  with le n have inb: "\<bar>i * n\<bar> \<le> 2 ^ 53" by linarith
  have m: "rnd (real_of_int i * real_of_int n) = Finite (real_of_int (i * n))"
    using ieee_int [OF ieee inb] by simp
  have q: "real_of_int (i * n) / real_of_int n = real_of_int i" using n1 by simp
  show ?thesis
    using n1 by (simp add: ieee_int [OF ieee ib] ieee_int [OF ieee nb] m q del: of_int_mult)
qed

lemma ieee_zero: "ieee_double_rounding rnd \<Longrightarrow> rnd 0 = Finite 0"
  using ieee_int [of rnd 0] by simp

lemma ieee_one: "ieee_double_rounding rnd \<Longrightarrow> rnd 1 = Finite 1"
  using ieee_int [of rnd 1] by simp

lemma redtoreg_cell_full_row:
  assumes ieee: "ieee_double_rounding rnd"
    and cell: "redtoreg_cell rnd mem n n indx redgrid missval i = Inr v"
    and i: "0 \<le> i" "i < n" and n: "n * n \<le> 2 ^ 53"
    and inside: "0 \<le> indx" "indx + n \<le> int (length redgrid)"
    and vm: "redgrid ! nat (indx + i) = Finite x" "rnd x = Finite x"
    and vp: "redgrid ! nat (indx + (i + 1) mod n) = Finite y"
  shows "v = redgrid ! nat (indx + i)"
proof -
  have n1: "1 \<le> n" using i by simp
  have "n \<le> n * n" using n1 by simp
  with n have nb: "n \<le> 2 ^ 53" by linarith
  have ib: "\<bar>i\<bar> \<le> 2 ^ 53" using i nb by simp
  have zxi: "d_div rnd (d_mul rnd (rnd (real_of_int i)) (rnd (real_of_int n))) (rnd (real_of_int n))
         = Finite (real_of_int i)"
    by (rule redtoreg_zxi_full_row [OF ieee i n])
  have im: "c_long_of_double (Finite (real_of_int i)) = Inr i"
    using i nb by (simp add: c_long_of_double_def fits_long_def)
  have zdx: "d_sub rnd (Finite (real_of_int i)) (rnd (real_of_int i)) = Finite 0"
    by (simp add: d_sub_def ieee_int [OF ieee ib] ieee_zero [OF ieee])
  have m1: "i mod n = i" using i by simp
  have w: "d_sub rnd (Finite 1) (Finite 0) = Finite 1"
    by (simp add: d_sub_def ieee_one [OF ieee])
  have p: "0 \<le> (i + 1) mod n" "(i + 1) mod n < n" using n1 by simp_all
  have dm: "deref mem redgrid (indx + i) = Inr (Finite x)"
    using i inside vm by (simp add: deref_def)
  have dp: "deref mem redgrid (indx + (i + 1) mod n) = Inr (Finite y)"
    using p inside vp by (simp add: deref_def)
  from cell show ?thesis
    unfolding redtoreg_cell_def Let_def zxi
    using n1 vm
    by (auto simp: im zdx m1 w dm dp ieee_zero [OF ieee] split: if_splits)
qed


lemma redtoreg_row_length:
  "redtoreg_row rnd mem nlons ilons indx redgrid missval cols = Inr row \<Longrightarrow> length row = length cols"
  by (induction cols arbitrary: row) (auto simp: bnd_eq_Inr)

lemma redtoreg_row_nth:
  "redtoreg_row rnd mem nlons ilons indx redgrid missval cols = Inr row \<Longrightarrow> k < length cols \<Longrightarrow>
   redtoreg_cell rnd mem nlons ilons indx redgrid missval (cols ! k) = Inr (row ! k)"
proof (induction cols arbitrary: row k)
  case Nil
  then show ?case by simp
next
  case (Cons i rest)
  then show ?case by (cases k) (auto simp: bnd_eq_Inr)
qed

lemma redtoreg_rows_length:
  "redtoreg_rows rnd mem nlons redgrid missval indx pl = Inr rows \<Longrightarrow> length rows = length pl"
  by (induction pl arbitrary: indx rows) (auto simp: bnd_eq_Inr split: if_splits)

lemma redtoreg_rows_nth:
  "redtoreg_rows rnd mem nlons redgrid missval indx pl = Inr rows \<Longrightarrow> j < length pl \<Longrightarrow>
   redtoreg_row rnd mem nlons (pl ! j) (indx + sum_list (take j pl)) redgrid missval
     (map int [0..<nat nlons]) = Inr (rows ! j)"
proof (induction pl arbitrary: indx rows j)
  case Nil
  then show ?case by simp
next
  case (Cons ilons rest)
  show ?case
  proof (cases j)
    case 0
    with Cons.prems show ?thesis by (auto simp: bnd_eq_Inr split: if_splits)
  next
    case (Suc j')
    from Cons.prems obtain row rows' where
      r: "redtoreg_rows rnd mem nlons redgrid missval (indx + ilons) rest = Inr rows'"
      and rows: "rows = row # rows'"
      by (auto simp: bnd_eq_Inr split: if_splits)
    from Cons.prems Suc have "j' < length rest" by simp
    from Cons.IH [OF r this] show ?thesis using Suc rows by (simp add: add.assoc)
  qed
qed

lemma redtoreg_full_row:
  assumes ieee: "ieee_double_rounding rnd"
    and row: "redtoreg_row rnd mem nlons nlons indx redgrid missval (map int [0..<nat nlons]) = Inr row"
    and n: "nlons * nlons \<le> 2 ^ 53"
    and inside: "0 \<le> indx" "indx + nlons \<le> int (length redgrid)"
    and fin: "\<forall>k < nat nlons. \<exists>x. redgrid ! (nat indx + k) = Finite x \<and> rnd x = Finite x"
  shows "row = take (nat nlons) (drop (nat indx) redgrid)"
proof (cases "0 < nlons")
  case False
  with row show ?thesis by simp
next
  case True
  have len: "length row = nat nlons" using redtoreg_row_length [OF row] by simp
  have c: "redtoreg_cell rnd mem nlons nlons indx redgrid missval (int k) = Inr (row ! k)"
    if "k < nat nlons" for k
    using redtoreg_row_nth [OF row, of k] that by simp
  have bound: "nat indx + nat nlons \<le> length redgrid" using inside True by linarith
  have cell: "row ! k = redgrid ! (nat indx + k)" if k: "k < nat nlons" for k
  proof -
    from fin k obtain x where x: "redgrid ! (nat indx + k) = Finite x" "rnd x = Finite x" by blast
    have k': "nat ((int k + 1) mod nlons) < nat nlons" using True by simp
    from fin k' obtain y where "redgrid ! (nat indx + nat ((int k + 1) mod nlons)) = Finite y"
      by blast
    then have y: "redgrid ! nat (indx + (int k + 1) mod nlons) = Finite y"
      using inside(1) True by (simp add: nat_add_distrib)
    have x': "redgrid ! nat (indx + int k) = Finite x"
      using x inside(1) by (simp add: nat_add_distrib)
    from redtoreg_cell_full_row [OF ieee c [OF k] _ _ n inside x' x(2) y] k
    have "row ! k = redgrid ! nat (indx + int k)" by simp
    then show ?thesis using inside(1) by (simp add: nat_add_distrib)
  qed
  show ?thesis
  proof (rule nth_equalityI)
    show "length row = length (take (nat nlons) (drop (nat indx) redgrid))"
      using len bound by simp
  next
    fix k assume "k < length row"
    then have k: "k < nat nlons" using len by simp
    from cell [OF k] show "row ! k = take (nat nlons) (drop (nat indx) redgrid) ! k"
      using k bound by simp
  qed
qed

lemma redtoreg_cell_total:
  assumes ieee: "ieee_double_rounding rnd"
    and i: "0 \<le> i" "i < nlons" and nlons: "nlons < 2 ^ 31"
    and ilons: "0 \<le> ilons" "nlons * ilons \<le> 2 ^ 53"
    and indx: "0 \<le> indx" "indx + ilons \<le> int (length redgrid)"
  shows "\<exists>v. redtoreg_cell rnd mem nlons ilons indx redgrid missval i = Inr v"
proof (cases "ilons = 0")
  case True
  have n0: "nlons \<noteq> 0" using i by simp
  have ib: "\<bar>i\<bar> \<le> 2 ^ 53" using i nlons by simp
  have nb: "\<bar>nlons\<bar> \<le> 2 ^ 53" using i nlons by simp
  have z: "rnd 0 = Finite 0" using ieee_int [OF ieee, of 0] by simp
  show ?thesis
    unfolding redtoreg_cell_def Let_def using True n0
    by (simp add: ieee_int [OF ieee ib] ieee_int [OF ieee nb] z c_long_of_double_def
        fits_long_def c_truncate_def)
next
  case False
  with ilons have pos: "0 < ilons" by simp
  have n1: "1 \<le> nlons" using i by simp
  have ib: "\<bar>i\<bar> \<le> 2 ^ 53" using i nlons by simp
  have nb: "\<bar>nlons\<bar> \<le> 2 ^ 53" using i nlons by simp
  have "ilons \<le> nlons * ilons" using n1 pos by simp
  with ilons have lb: "ilons \<le> 2 ^ 53" by linarith
  then have lb': "\<bar>ilons\<bar> \<le> 2 ^ 53" using pos by simp
  have le: "i * ilons \<le> nlons * ilons" using i pos by (intro mult_right_mono) auto
  have ge: "0 \<le> i * ilons" using i pos by simp
  from le ge ilons have pb: "\<bar>i * ilons\<bar> \<le> 2 ^ 53" by linarith
  have m: "rnd (real_of_int i * real_of_int ilons) = Finite (real_of_int (i * ilons))"
    using ieee_int [OF ieee pb] by simp
  define q where "q = real_of_int (i * ilons) / real_of_int nlons"
  have q0: "0 \<le> q" unfolding q_def using ge n1
    by (intro divide_nonneg_nonneg) (simp_all del: of_int_mult)
  have q1: "q \<le> real_of_int ilons"
  proof -
    have "real_of_int i * real_of_int ilons \<le> real_of_int nlons * real_of_int ilons"
      using i pos by (intro mult_right_mono) auto
    then show ?thesis unfolding q_def using n1 by (simp add: pos_divide_le_eq mult.commute)
  qed
  have "real_of_int ilons \<le> real_of_int (2 ^ 53)" using lb by (simp only: of_int_le_iff)
  with q1 have q2: "q \<le> 2 ^ 53" by simp
  from ieee_bounded [OF ieee q0 q2] obtain y where
    y: "rnd q = Finite y" "0 \<le> y" "y \<le> 2 ^ 53" by blast
  have zxi: "d_div rnd (d_mul rnd (rnd (real_of_int i)) (rnd (real_of_int ilons)))
               (rnd (real_of_int nlons)) = Finite y"
    using n1 y(1) by (simp add: ieee_int [OF ieee ib] ieee_int [OF ieee nb] ieee_int [OF ieee lb']
        m q_def del: of_int_mult)
  define im where "im = \<lfloor>y\<rfloor>"
  have im0: "0 \<le> im" using y(2) by (simp add: im_def)
  have "im \<le> \<lfloor>(2::real) ^ 53\<rfloor>" unfolding im_def using y(3) by (rule floor_mono)
  then have im1: "im \<le> 2 ^ 53" by simp
  have cast: "c_long_of_double (Finite y) = Inr im"
    using y(2) im0 im1 by (simp add: c_long_of_double_def c_truncate_def fits_long_def im_def)
  have mb: "0 \<le> k mod ilons \<and> k mod ilons < ilons" for k using pos by simp
  have d: "deref mem redgrid (indx + k mod ilons) = Inr (redgrid ! nat (indx + k mod ilons))" for k
    using mb [of k] indx by (simp add: deref_def)
  have f1: "fits_long (im + ilons)" using im0 im1 pos lb by (simp add: fits_long_def)
  define r where "r = (im + ilons) mod ilons"
  have r: "0 \<le> r" "r < ilons" unfolding r_def using pos by simp_all
  have "fits_long (r + 1 + ilons)" using r lb by (simp add: fits_long_def)
  then have f2: "fits_long ((im + ilons) mod ilons + 1 + ilons)" unfolding r_def .
  show ?thesis
    unfolding redtoreg_cell_def Let_def zxi using False n1 f1 f2
    by (simp add: cast d)
qed

lemma redtoreg_row_total:
  assumes ieee: "ieee_double_rounding rnd"
    and cols: "\<forall>i \<in> set cols. 0 \<le> i \<and> i < nlons" and nlons: "nlons < 2 ^ 31"
    and ilons: "0 \<le> ilons" "nlons * ilons \<le> 2 ^ 53"
    and indx: "0 \<le> indx" "indx + ilons \<le> int (length redgrid)"
  shows "\<exists>row. redtoreg_row rnd mem nlons ilons indx redgrid missval cols = Inr row"
  using cols
proof (induction cols)
  case Nil
  then show ?case by simp
next
  case (Cons i rest)
  from Cons.prems have "0 \<le> i" "i < nlons" by auto
  from redtoreg_cell_total [OF ieee this nlons ilons indx]
  obtain v where "redtoreg_cell rnd mem nlons ilons indx redgrid missval i = Inr v" by blast
  with Cons show ?case by auto
qed

lemma redtoreg_rows_total:
  "ieee_double_rounding rnd \<Longrightarrow> nlons < 2 ^ 31 \<Longrightarrow>
   \<forall>ilons \<in> set pl. 0 \<le> ilons \<and> nlons * ilons \<le> 2 ^ 53 \<Longrightarrow> 0 \<le> indx \<Longrightarrow>
   indx + sum_list pl \<le> int (length redgrid) \<Longrightarrow> int (length redgrid) < 2 ^ 63 \<Longrightarrow>
   \<exists>rows. redtoreg_rows rnd mem nlons redgrid missval indx pl = Inr rows"
proof (induction pl arbitrary: indx)
  case Nil
  then show ?case by simp
next
  case (Cons ilons rest)
  have s: "0 \<le> sum_list rest" using Cons.prems(3) by (simp add: sum_list_nonneg)
  have il: "0 \<le> ilons" "nlons * ilons \<le> 2 ^ 53" using Cons.prems(3) by auto
  have b: "indx + ilons \<le> int (length redgrid)" using Cons.prems(5) s by simp
  have "\<exists>row. redtoreg_row rnd mem nlons ilons indx redgrid missval (map int [0..<nat nlons]) = Inr row"
    by (rule redtoreg_row_total [OF Cons.prems(1) _ Cons.prems(2) il Cons.prems(4) b]) auto
  moreover from Cons.prems il
  have "\<exists>rows. redtoreg_rows rnd mem nlons redgrid missval (indx + ilons) rest = Inr rows"
    by (intro Cons.IH) (auto simp: add.assoc)
  moreover have "fits_long (indx + ilons)"
    using b Cons.prems(4,6) il by (simp add: fits_long_def)
  ultimately show ?case by auto
qed

lemma redtoreg_total:
  assumes "ieee_double_rounding rnd" and "0 \<le> nlons" and "nlons < 2 ^ 31"
    and "\<forall>ilons \<in> set lonsperlat. 0 \<le> ilons \<and> nlons * ilons \<le> 2 ^ 53"
    and "sum_list lonsperlat \<le> int (length redgrid)" and "int (length redgrid) < 2 ^ 63"
  shows "\<exists>reggrid. redtoreg rnd mem nlons lonsperlat redgrid missval = Inr reggrid"
  using redtoreg_rows_total [of rnd nlons lonsperlat 0 redgrid mem missval] assms
  by (simp add: redtoreg_def)

lemma redtoreg_shape:
  assumes "redtoreg rnd mem nlons lonsperlat redgrid missval = Inr reggrid"
  shows "length reggrid = length lonsperlat \<and>
         (\<forall>j < length lonsperlat. length (reggrid ! j) = nat nlons)"
proof -
  from assms have r: "redtoreg_rows rnd mem nlons redgrid missval 0 lonsperlat = Inr reggrid"
    by (simp add: redtoreg_def split: if_splits)
  have "length (reggrid ! j) = nat nlons" if j: "j < length lonsperlat" for j
    using redtoreg_row_length [OF redtoreg_rows_nth [OF r j]] by simp
  with redtoreg_rows_length [OF r] show ?thesis by blast
qed

lemma redtoreg_copies_full_row:
  assumes "redtoreg rnd mem nlons lonsperlat redgrid missval = Inr reggrid"
    and ieee: "ieee_double_rounding rnd"
    and j: "j < length lonsperlat" and full: "lonsperlat ! j = nlons"
    and n: "nlons * nlons \<le> 2 ^ 53"
    and inside: "0 \<le> sum_list (take j lonsperlat)"
      "sum_list (take j lonsperlat) + nlons \<le> int (length redgrid)"
    and fin: "\<forall>k < nat nlons. \<exists>x.
                redgrid ! (nat (sum_list (take j lonsperlat)) + k) = Finite x \<and> rnd x = Finite x"
  shows "reggrid ! j = take (nat nlons) (drop (nat (sum_list (take j lonsperlat))) redgrid)"
proof -
  from assms(1) have r: "redtoreg_rows rnd mem nlons redgrid missval 0 lonsperlat = Inr reggrid"
    by (simp add: redtoreg_def split: if_splits)
  from redtoreg_rows_nth [OF r j] full
  have row: "redtoreg_row rnd mem nlons nlons (sum_list (take j lonsperlat)) redgrid missval
               (map int [0..<nat nlons]) = Inr (reggrid ! j)" by simp
  from redtoreg_full_row [OF ieee row n inside fin] show ?thesis .
qed

text \<open>
  C2, as amended. Let the machine round with \<open>rnd\<close>, and let \<open>rnd\<close> have the two
  properties of IEEE rounding named by \<open>ieee_double_rounding\<close>. With a target width
  \<^verbatim>\<open>nlons\<close> from 0 to \<open>2 ^ 31 - 1\<close>, row lengths that are not negative and whose product
  with \<^verbatim>\<open>nlons\<close> is at most \<open>2 ^ 53\<close>, and a data buffer of fewer than \<open>2 ^ 63\<close> elements
  that holds all the rows, \<^verbatim>\<open>_redtoreg\<close> returns. Whenever it returns, on any machine
  and whatever it read, there is one row per entry of \<^verbatim>\<open>lonsperlat\<close> and every row has
  \<^verbatim>\<open>nlons\<close> entries. A row \<open>j\<close> whose length is \<^verbatim>\<open>nlons\<close> is returned equal to the
  source row (row \<open>j\<close> of the reduced grid starts at the sum of the lengths of the rows
  before it) when the rounding is that of IEEE, \<^verbatim>\<open>nlons * nlons\<close> is at most \<open>2 ^ 53\<close>,
  the source row lies inside the data buffer and every cell of it is a finite double.
\<close>

theorem redtoreg_width_and_full_rows:
  "(ieee_double_rounding rnd \<and> 0 \<le> nlons \<and> nlons < 2 ^ 31 \<and>
      (\<forall>ilons \<in> set lonsperlat. 0 \<le> ilons \<and> nlons * ilons \<le> 2 ^ 53) \<and>
      sum_list lonsperlat \<le> int (length redgrid) \<and> int (length redgrid) < 2 ^ 63 \<longrightarrow>
      (\<exists>reggrid. redtoreg rnd mem nlons lonsperlat redgrid missval = Inr reggrid))
   \<and> (\<forall>reggrid. redtoreg rnd mem nlons lonsperlat redgrid missval = Inr reggrid \<longrightarrow>
         length reggrid = length lonsperlat \<and>
         (\<forall>j < length lonsperlat.
            length (reggrid ! j) = nat nlons \<and>
            (ieee_double_rounding rnd \<and> lonsperlat ! j = nlons \<and> nlons * nlons \<le> 2 ^ 53 \<and>
             0 \<le> sum_list (take j lonsperlat) \<and>
             sum_list (take j lonsperlat) + nlons \<le> int (length redgrid) \<and>
             (\<forall>k < nat nlons. \<exists>x.
                redgrid ! (nat (sum_list (take j lonsperlat)) + k) = Finite x \<and> rnd x = Finite x)
             \<longrightarrow> reggrid ! j =
                   take (nat nlons) (drop (nat (sum_list (take j lonsperlat))) redgrid))))"
proof (intro conjI impI allI)
  assume "ieee_double_rounding rnd \<and> 0 \<le> nlons \<and> nlons < 2 ^ 31 \<and>
      (\<forall>ilons \<in> set lonsperlat. 0 \<le> ilons \<and> nlons * ilons \<le> 2 ^ 53) \<and>
      sum_list lonsperlat \<le> int (length redgrid) \<and> int (length redgrid) < 2 ^ 63"
  then show "\<exists>reggrid. redtoreg rnd mem nlons lonsperlat redgrid missval = Inr reggrid"
    by (intro redtoreg_total) blast+
next
  fix reggrid
  assume "redtoreg rnd mem nlons lonsperlat redgrid missval = Inr reggrid"
  then show "length reggrid = length lonsperlat" using redtoreg_shape by blast
next
  fix reggrid j
  assume "redtoreg rnd mem nlons lonsperlat redgrid missval = Inr reggrid" "j < length lonsperlat"
  then show "length (reggrid ! j) = nat nlons" using redtoreg_shape by blast
next
  fix reggrid j
  assume r: "redtoreg rnd mem nlons lonsperlat redgrid missval = Inr reggrid"
    and j: "j < length lonsperlat"
    and h: "ieee_double_rounding rnd \<and> lonsperlat ! j = nlons \<and> nlons * nlons \<le> 2 ^ 53 \<and>
             0 \<le> sum_list (take j lonsperlat) \<and>
             sum_list (take j lonsperlat) + nlons \<le> int (length redgrid) \<and>
             (\<forall>k < nat nlons. \<exists>x.
                redgrid ! (nat (sum_list (take j lonsperlat)) + k) = Finite x \<and> rnd x = Finite x)"
  from h have i: "ieee_double_rounding rnd" and f: "lonsperlat ! j = nlons"
    and n: "nlons * nlons \<le> 2 ^ 53"
    and b: "0 \<le> sum_list (take j lonsperlat)"
      "sum_list (take j lonsperlat) + nlons \<le> int (length redgrid)"
    and c: "\<forall>k < nat nlons. \<exists>x.
                redgrid ! (nat (sum_list (take j lonsperlat)) + k) = Finite x \<and> rnd x = Finite x"
    by blast+
  show "reggrid ! j = take (nat nlons) (drop (nat (sum_list (take j lonsperlat))) redgrid)"
    by (rule redtoreg_copies_full_row [OF r i j f n b c])
qed

theorem redtoreg_width_and_full_rows_witness:
  "\<exists>reggrid. redtoreg Finite (\<lambda>k. None) 2 [2, 1] [Finite 1, Finite 2, Finite 3] (Finite (10 ^ 30))
       = Inr reggrid \<and>
     length reggrid = 2 \<and> length (reggrid ! 0) = 2 \<and> length (reggrid ! 1) = 2 \<and>
     reggrid ! 0 = [Finite 1, Finite 2]"
proof -
  have ieee: "ieee_double_rounding Finite" by (simp add: ieee_double_rounding_def)
  have h: "ieee_double_rounding Finite \<and> (0::int) \<le> 2 \<and> (2::int) < 2 ^ 31 \<and>
    (\<forall>ilons \<in> set [2, 1::int]. 0 \<le> ilons \<and> 2 * ilons \<le> 2 ^ 53) \<and>
    sum_list [2, 1] \<le> int (length [Finite 1, Finite 2, Finite 3]) \<and>
    int (length [Finite 1, Finite 2, Finite 3]) < 2 ^ 63"
    using ieee by simp
  note main = redtoreg_width_and_full_rows [of Finite 2 "[2, 1]" "[Finite 1, Finite 2, Finite 3]"
      "\<lambda>k. None" "Finite (10 ^ 30)"]
  from main h obtain reggrid where
    r: "redtoreg Finite (\<lambda>k. None) 2 [2, 1] [Finite 1, Finite 2, Finite 3] (Finite (10 ^ 30))
          = Inr reggrid"
    by blast
  with main have l: "length reggrid = length [2, 1::int]"
    and a: "\<forall>j < length [2, 1::int]. length (reggrid ! j) = nat 2 \<and>
              (ieee_double_rounding Finite \<and> [2, 1] ! j = (2::int) \<and> (2::int) * 2 \<le> 2 ^ 53 \<and>
               0 \<le> sum_list (take j [2, 1::int]) \<and>
               sum_list (take j [2, 1::int]) + 2 \<le> int (length [Finite 1, Finite 2, Finite 3]) \<and>
               (\<forall>k < nat 2. \<exists>x.
                  [Finite 1, Finite 2, Finite 3] ! (nat (sum_list (take j [2, 1])) + k) = Finite x
                  \<and> Finite x = Finite x)
               \<longrightarrow> reggrid ! j =
                     take (nat 2) (drop (nat (sum_list (take j [2, 1])))
                       [Finite 1, Finite 2, Finite 3]))"
    by blast+
  have c: "\<forall>k < nat 2. \<exists>x.
      [Finite 1, Finite 2, Finite 3] ! (nat (sum_list (take 0 [2, 1::int])) + k) = Finite x
      \<and> Finite x = Finite x"
    by (auto simp: less_Suc_eq numeral_2_eq_2)
  from a have "length (reggrid ! 0) = 2" "length (reggrid ! 1) = 2" by auto
  moreover from a [rule_format, of 0] ieee c have "reggrid ! 0 = [Finite 1, Finite 2]" by simp
  ultimately show ?thesis using r l by simp
qed

text \<open>
  The claim C2 as stated fails on a row that holds an infinity: in the row
  \<open>[\<infinity>, 1]\<close> of length 2, expanded to the width 2, the second cell is
  \<open>1 * 1 + \<infinity> * 0\<close>, which is NaN.
\<close>

theorem redtoreg_full_row_with_infinity:
  "redtoreg Finite (\<lambda>k. None) 2 [2] [PInf, Finite 1] (Finite (10 ^ 30)) = Inr [[PInf, NaN]]
   \<and> [PInf, NaN] \<noteq> [PInf, Finite 1]"
  by (simp add: redtoreg_def redtoreg_cell_def c_long_of_double_def c_truncate_def fits_long_def
      deref_def d_sub_def d_inf_def d_sgn_def Let_def upt_rec [of 0] upt_rec [of 1] upt_rec [of 2]
      eval_nat_numeral)

subsection \<open>The message object\<close>

lemma read_only_keys_subset:
  "read_only_keys api h all_keys = Inr ro \<Longrightarrow> set ro \<subseteq> set all_keys"
  by (auto simp: read_only_keys_def Let_def split: if_splits)

text \<open>The read-only keys of a constructed message are among its keys.\<close>

lemma new_gribmessage_ro_subset:
  "new_gribmessage api h n = Inr self \<Longrightarrow> set (self_ro_keys self) \<subseteq> set (self_all_keys self)"
proof -
  assume "new_gribmessage api h n = Inr self"
  then obtain all_keys ro where "read_only_keys api h all_keys = Inr ro"
    and "self_ro_keys self = ro" and "self_all_keys self = all_keys"
    by (auto simp: new_gribmessage_def bnd_eq_Inr)
  then show ?thesis using read_only_keys_subset [of api h all_keys ro] by simp
qed

lemma new_sample_keys_message:
  "new_gribmessage sample_api sample_keys_handle 1 = Inr (sample_message sample_keys_handle)"
  by (simp add: new_gribmessage_def keys_uncached_def read_only_keys_def sample_api_def
      sample_keys_handle_def sample_message_def sample_keys_def ignored_names_def
      ignored_types_def sample_type_def raise_grib_def)

subsection \<open>Writing a key\<close>

text \<open>
  C3. In a message whose read-only keys are among its keys (as \<^verbatim>\<open>__new__\<close> leaves
  them), assigning to a read-only key raises the \<^verbatim>\<open>KeyError\<close> "is read only" and
  assigning to a key that the message does not have raises the \<^verbatim>\<open>KeyError\<close>
  "not found"; in both cases no function of the decoder has been called and the message
  is unchanged, whatever the decoder, the value and the depth.
\<close>

theorem setitem_rejects_before_decoder:
  assumes "set (self_ro_keys self) \<subseteq> set (self_all_keys self)"
  shows "(key \<in> set (self_ro_keys self) \<longrightarrow>
            setitem depth api self key value =
              (Inl (KeyError (''key '' @ [CHR 0x22] @ key @ [CHR 0x22] @ '' is read only'')),
               self, []))
       \<and> (key \<notin> set (self_all_keys self) \<longrightarrow>
            setitem depth api self key value =
              (Inl (KeyError (''can only modify existing grib keys (key '' @ [CHR 0x22] @ key
                 @ [CHR 0x22] @ '' not found)'')), self, []))"
  using assms by (auto simp: setitem_def setitem_body_def)

theorem setitem_rejects_before_decoder_witness:
  "setitem 3 sample_api (sample_message sample_keys_handle) ''Ni'' (PyLong 4) =
       (Inl (KeyError (''key '' @ [CHR 0x22] @ ''Ni'' @ [CHR 0x22] @ '' is read only'')),
        sample_message sample_keys_handle, [])
   \<and> setitem 3 sample_api (sample_message sample_keys_handle) ''Nj'' (PyLong 4) =
       (Inl (KeyError (''can only modify existing grib keys (key '' @ [CHR 0x22] @ ''Nj''
                 @ [CHR 0x22] @ '' not found)'')), sample_message sample_keys_handle, [])"
proof -
  let ?m = "sample_message sample_keys_handle"
  have sub: "set (self_ro_keys ?m) \<subseteq> set (self_all_keys ?m)"
    by (auto simp: sample_message_def)
  have ro: "''Ni'' \<in> set (self_ro_keys ?m)"
    by (simp add: sample_message_def sample_keys_handle_def sample_keys_def ignored_names_def
        ignored_types_def sample_type_def)
  have nf: "''Nj'' \<notin> set (self_all_keys ?m)"
    by (simp add: sample_message_def sample_keys_handle_def sample_keys_def ignored_names_def
        ignored_types_def sample_type_def)
  from setitem_rejects_before_decoder [OF sub, of "''Ni''" 3 sample_api "PyLong 4"] ro
    setitem_rejects_before_decoder [OF sub, of "''Nj''" 3 sample_api "PyLong 4"] nf
  show ?thesis by blast
qed

text \<open>
  What the two numeric branches decide to write, for a scalar and for an array.
\<close>

lemma long_to_write_scalar:
  "asarray_long value = Inr datarr \<Longrightarrow> ndim datarr = 0 \<Longrightarrow> value_as_long value = Inr longval \<Longrightarrow>
   long_to_write self sg key value = Inr (Inl longval)"
  by (simp add: long_to_write_def unassigned_def py_truth_def)

lemma long_to_write_array:
  "asarray_long value = Inr datarr \<Longrightarrow> ndim datarr \<noteq> 0 \<Longrightarrow>
   (if key = ''values'' then unshape_mask self sg (NdLong datarr) else Inr (NdLong datarr))
     = Inr (NdLong shaped) \<Longrightarrow>
   long_to_write self sg key value = Inr (Inr (flat shaped))"
  by (simp add: long_to_write_def unassigned_def py_True_def py_truth_def)

lemma double_to_write_scalar:
  "asarray_double rnd value = Inr datarr \<Longrightarrow> ndim datarr = 0 \<Longrightarrow>
   value_as_double rnd value = Inr doubleval \<Longrightarrow>
   double_to_write rnd self sg key value = Inr (Inl doubleval)"
  by (simp add: double_to_write_def unassigned_def py_truth_def)

lemma double_to_write_array:
  "asarray_double rnd value = Inr datarr \<Longrightarrow> ndim datarr \<noteq> 0 \<Longrightarrow>
   (if key = ''values'' then unshape_mask self sg (NdDouble datarr) else Inr (NdDouble datarr))
     = Inr (NdDouble shaped) \<Longrightarrow>
   double_to_write rnd self sg key value = Inr (Inr (flat shaped))"
  by (simp add: double_to_write_def unassigned_def py_True_def py_truth_def)

lemma long_to_write_rejected:
  "asarray_long value = Inr datarr \<Longrightarrow> 2 < ndim datarr \<Longrightarrow>
   long_to_write self sg ''values'' value = Inl (ValueError ''array must be 1d or 2d'')"
  by (simp add: long_to_write_def unassigned_def py_True_def py_truth_def unshape_mask_def nd_ndim_def)

lemma double_to_write_rejected:
  "asarray_double rnd value = Inr datarr \<Longrightarrow> 2 < ndim datarr \<Longrightarrow>
   double_to_write rnd self sg ''values'' value = Inl (ValueError ''array must be 1d or 2d'')"
  by (simp add: double_to_write_def unassigned_def py_True_def py_truth_def unshape_mask_def nd_ndim_def)

text \<open>
  C8, as amended. Let the key be one of the keys of the message and not read-only, and
  let the decoder answer the query of its type without error. If the type is
  \<^verbatim>\<open>long\<close> (\<^verbatim>\<open>double\<close>) and \<^verbatim>\<open>np.asarray\<close> converts the value to an integer
  (float) array, then: for a value without shape that converts to a C \<^verbatim>\<open>long\<close>
  (\<^verbatim>\<open>double\<close>), the assignment calls the scalar write of the decoder with that number;
  for a value with a shape, when the key is not \<^verbatim>\<open>values\<close> or \<^verbatim>\<open>_unshape_mask\<close>
  returns an array, it calls the array write of the decoder with the elements of that
  array in C order. The write is the only call after the query of the type; the assignment
  succeeds when the write returns 0 and raises \<^verbatim>\<open>RuntimeError\<close> otherwise, and the message
  holds the handle as the write left it. For the key \<^verbatim>\<open>values\<close> an array of more than
  two dimensions raises \<^verbatim>\<open>ValueError\<close> and nothing is written.
\<close>

theorem setitem_numeric_writes:
  assumes "key \<notin> set (self_ro_keys self)" and "key \<in> set (self_all_keys self)"
    and "grib_get_native_type api (self_gh self) key = (0, type)"
  shows
   "(type = GRIB_TYPE_LONG \<longrightarrow> asarray_long value = Inr longs \<longrightarrow> ndim longs = 0 \<longrightarrow>
       value_as_long value = Inr longval \<longrightarrow>
       setitem depth api self key value =
         written api self [Get_native_type key, Set_long key longval]
           (grib_set_long api (self_gh self) key longval))
    \<and> (type = GRIB_TYPE_LONG \<longrightarrow> asarray_long value = Inr longs \<longrightarrow> ndim longs \<noteq> 0 \<longrightarrow>
       (if key = ''values'' then unshape_mask self (getitem depth api self) (NdLong longs)
        else Inr (NdLong longs)) = Inr (NdLong longs') \<longrightarrow>
       setitem depth api self key value =
         written api self [Get_native_type key, Set_long_array key (flat longs')]
           (grib_set_long_array api (self_gh self) key (flat longs')))
    \<and> (type = GRIB_TYPE_DOUBLE \<longrightarrow> asarray_double (round_double api) value = Inr doubles \<longrightarrow>
       ndim doubles = 0 \<longrightarrow> value_as_double (round_double api) value = Inr doubleval \<longrightarrow>
       setitem depth api self key value =
         written api self [Get_native_type key, Set_double key doubleval]
           (grib_set_double api (self_gh self) key doubleval))
    \<and> (type = GRIB_TYPE_DOUBLE \<longrightarrow> asarray_double (round_double api) value = Inr doubles \<longrightarrow>
       ndim doubles \<noteq> 0 \<longrightarrow>
       (if key = ''values'' then unshape_mask self (getitem depth api self) (NdDouble doubles)
        else Inr (NdDouble doubles)) = Inr (NdDouble doubles') \<longrightarrow>
       setitem depth api self key value =
         written api self [Get_native_type key, Set_double_array key (flat doubles')]
           (grib_set_double_array api (self_gh self) key (flat doubles')))
    \<and> (key = ''values'' \<longrightarrow>
       (type = GRIB_TYPE_LONG \<and> asarray_long value = Inr longs \<and> 2 < ndim longs) \<or>
       (type = GRIB_TYPE_DOUBLE \<and> asarray_double (round_double api) value = Inr doubles
          \<and> 2 < ndim doubles) \<longrightarrow>
       setitem depth api self key value =
         (Inl (ValueError ''array must be 1d or 2d''), self, [Get_native_type key]))
    \<and> (\<forall>calls h. written api self calls (0, h) = (Inr (), self\<lparr>self_gh := h\<rparr>, calls))
    \<and> (\<forall>calls err h. err \<noteq> 0 \<longrightarrow>
         written api self calls (err, h) = (Inl (raise_grib api err), self\<lparr>self_gh := h\<rparr>, calls))"
  using assms
  by (auto simp: setitem_def setitem_body_def written_def long_to_write_scalar long_to_write_array
      double_to_write_scalar double_to_write_array long_to_write_rejected double_to_write_rejected)

theorem setitem_numeric_writes_witness:
  "setitem 3 sample_api (sample_message sample_keys_handle) ''level'' (PyLong 850) =
     (Inr (),
      (sample_message sample_keys_handle)\<lparr>self_gh :=
         ((''level'', SLong 850) # fst sample_keys_handle, snd sample_keys_handle)\<rparr>,
      [Get_native_type ''level'', Set_long ''level'' 850])"
proof -
  let ?m = "sample_message sample_keys_handle"
  have w: "''level'' \<notin> set (self_ro_keys ?m)"
    by (simp add: sample_message_def sample_keys_handle_def sample_keys_def ignored_names_def
        ignored_types_def sample_type_def)
  have k: "''level'' \<in> set (self_all_keys ?m)"
    by (simp add: sample_message_def sample_keys_handle_def sample_keys_def ignored_names_def
        ignored_types_def sample_type_def)
  have t: "grib_get_native_type sample_api (self_gh ?m) ''level'' = (0, GRIB_TYPE_LONG)"
    by (simp add: sample_api_def sample_message_def sample_keys_handle_def sample_type_def)
  have a: "asarray_long (PyLong 850) = Inr (A0 850)" by (simp add: asarray_long_def fits_long_def)
  have v: "value_as_long (PyLong 850) = Inr 850" by (simp add: value_as_long_def fits_long_def)
  have s: "grib_set_long sample_api (self_gh ?m) ''level'' 850 =
             (0, ((''level'', SLong 850) # fst sample_keys_handle, snd sample_keys_handle))"
    by (simp add: sample_api_def sample_message_def)
  have "setitem 3 sample_api ?m ''level'' (PyLong 850) =
          written sample_api ?m [Get_native_type ''level'', Set_long ''level'' 850]
            (grib_set_long sample_api (self_gh ?m) ''level'' 850)"
    by (rule setitem_numeric_writes [OF w k t, THEN conjunct1, rule_format, OF refl a _ v]) simp
  then show ?thesis unfolding s by (simp add: written_def)
qed

text \<open>
  The claim C8 as stated fails on the key \<^verbatim>\<open>values\<close>: the key is writable and of type
  \<^verbatim>\<open>double\<close>, the array write of the decoder would succeed, and the assignment of an
  array of three dimensions raises \<^verbatim>\<open>ValueError\<close> with nothing written.
\<close>

theorem setitem_values_three_dimensions:
  "''values'' \<notin> set (self_ro_keys (sample_message sample_regular_handle))
   \<and> ''values'' \<in> set (self_all_keys (sample_message sample_regular_handle))
   \<and> grib_get_native_type sample_api (self_gh (sample_message sample_regular_handle)) ''values''
       = (0, GRIB_TYPE_DOUBLE)
   \<and> fst (grib_set_double_array sample_api (self_gh (sample_message sample_regular_handle))
            ''values'' [1, 2, 3, 4, 5, 6]) = 0
   \<and> setitem 2 sample_api (sample_message sample_regular_handle) ''values''
       (PyArray (NdDouble (AN [1, 2, 3] [1, 2, 3, 4, 5, 6]))) =
     (Inl (ValueError ''array must be 1d or 2d''), sample_message sample_regular_handle,
      [Get_native_type ''values''])"
  by (simp add: setitem_def setitem_body_def double_to_write_def asarray_double_def unassigned_def
      py_True_def py_truth_def unshape_mask_def nd_ndim_def
      sample_api_def sample_message_def sample_keys_def sample_regular_handle_def sample_type_def
      ignored_names_def ignored_types_def)

subsection \<open>Reading a key\<close>

text \<open>
  C7, as amended. When the queries of the size and of the type of a key succeed, a key of
  type \<^verbatim>\<open>GRIB_TYPE_UNDEFINED\<close> reads as \<^verbatim>\<open>None\<close>, and a key of type
  \<^verbatim>\<open>GRIB_TYPE_BYTES\<close>, \<^verbatim>\<open>GRIB_TYPE_SECTION\<close>, \<^verbatim>\<open>GRIB_TYPE_LABEL\<close> or
  \<^verbatim>\<open>GRIB_TYPE_MISSING\<close> raises \<^verbatim>\<open>ValueError\<close> "unrecognized grib type".
\<close>

theorem getitem_ignorable_types:
  assumes "fst (grib_get_size api (self_gh self) key) = 0"
    and "grib_get_native_type api (self_gh self) key = (0, type)"
  shows "(type = GRIB_TYPE_UNDEFINED \<longrightarrow> getitem (Suc depth) api self key = Inr PyNone)
       \<and> (type \<in> {GRIB_TYPE_BYTES, GRIB_TYPE_SECTION, GRIB_TYPE_LABEL, GRIB_TYPE_MISSING} \<longrightarrow>
            getitem (Suc depth) api self key = Inl (ValueError ''unrecognized grib type''))"
  using assms by (auto simp: getitem_body_def split: prod.splits)

theorem getitem_ignorable_types_witness:
  "getitem 1 sample_api (sample_message sample_keys_handle) ''unused'' = Inr PyNone
   \<and> getitem 1 sample_api (sample_message sample_keys_handle) ''section1Padding''
       = Inl (ValueError ''unrecognized grib type'')"
proof -
  let ?m = "sample_message sample_keys_handle"
  have s: "fst (grib_get_size sample_api (self_gh ?m) k) = 0"
    if "k \<in> {''unused'', ''section1Padding''}" for k
    using that by (auto simp: sample_api_def sample_message_def sample_keys_handle_def)
  have t1: "grib_get_native_type sample_api (self_gh ?m) ''unused'' = (0, GRIB_TYPE_UNDEFINED)"
    by (simp add: sample_api_def sample_message_def sample_keys_handle_def sample_type_def)
  have t2: "grib_get_native_type sample_api (self_gh ?m) ''section1Padding''
              = (0, GRIB_TYPE_LABEL)"
    by (simp add: sample_api_def sample_message_def sample_keys_handle_def sample_type_def)
  from getitem_ignorable_types [OF s t1, of 0] getitem_ignorable_types [OF s t2, of 0]
  show ?thesis by simp
qed

text \<open>
  The claim as stated fails on a key of type \<^verbatim>\<open>GRIB_TYPE_LABEL\<close>: reading it raises.
\<close>

theorem getitem_label_raises:
  "grib_get_native_type sample_api (self_gh (sample_message sample_keys_handle))
     ''section1Padding'' = (0, GRIB_TYPE_LABEL)
   \<and> getitem 1 sample_api (sample_message sample_keys_handle) ''section1Padding''
       = Inl (ValueError ''unrecognized grib type'')
   \<and> getitem 1 sample_api (sample_message sample_keys_handle) ''section1Padding'' \<noteq> Inr PyNone"
  by (simp add: getitem_body_def sample_api_def sample_message_def sample_keys_handle_def
      sample_type_def sample_size_def)

subsection \<open>The shape of the earth\<close>

text \<open>
  Without the key of the scale factor both scales are 1, and the axes follow the code of
  the shape of the earth.
\<close>

lemma earth_scales_absent:
  "\<not> has_key self ''scaleFactorOfMajorAxisOfOblateSpheroidEarth'' \<Longrightarrow>
   earth_scales self self_get = Inr (PyDouble 1, PyDouble 1)"
  by (simp add: earth_scales_def)

lemma earth_shape_table:
  assumes "earth_scales self self_get = Inr (scalea, scaleb)"
    and "self_get ''shapeOfTheEarth'' = Inr (PyLong code)"
  shows "code = 0 \<longrightarrow> earth_shape self self_get = Inr (PyDouble 6367470, PyDouble 6367470)"
    and "code = 2 \<longrightarrow> earth_shape self self_get = Inr (PyDouble 6378160, PyDouble 6356775)"
    and "code = 8 \<longrightarrow> earth_shape self self_get = Inr (PyDouble 6371200, PyDouble 6371200)"
    and "code = 6 \<longrightarrow> earth_shape self self_get =
           bnd (self_get ''radius'') (\<lambda>a. bnd (self_get ''radius'') (\<lambda>b. Inr (a, b)))"
    and "code = 3 \<or> code = 7 \<longrightarrow> earth_shape self self_get =
           bnd (self_get ''scaledValueOfMajorAxisOfOblateSpheroidEarth'') (\<lambda>major.
           bnd (py_mul major scalea) (\<lambda>a.
           bnd (self_get ''scaledValueOfMinorAxisOfOblateSpheroidEarth'') (\<lambda>minor.
           bnd (py_mul minor scaleb) (\<lambda>b. Inr (a, b)))))"
    and "code = 1 \<longrightarrow> earth_shape self self_get =
           bnd (self_get ''scaledValueOfRadiusOfSphericalEarth'') (\<lambda>r.
           bnd (py_mul r scalea) (\<lambda>a.
           bnd (self_get ''scaledValueOfRadiusOfSphericalEarth'') (\<lambda>r.
           bnd (py_mul r scaleb) (\<lambda>b. Inr (a, b)))))"
    and "code \<notin> {0, 1, 2, 3, 6, 7, 8} \<longrightarrow>
           earth_shape self self_get = Inl (ValueError ''unknown shape of the earth flag'')"
  using assms by (auto simp: earth_shape_def shape_is_def py_eq_long_def if_m_def)

lemma earth_scale_sentinel:
  assumes "self_missingvalue_int self < -5 \<or> 256 < self_missingvalue_int self"
  shows "earth_scale self (PyLong (self_missingvalue_int self)) one =
           Inr (PyDouble (1000 * 10 powr (- real_of_int (self_missingvalue_int self))))"
  using assms by (auto simp: earth_scale_def py_truth_def py_is_def as_c_double_def)

lemma sample_missing_long_large: "256 < sample_missing_long"
  by (simp add: sample_missing_long_def)

lemma sample_earth_getitem:
  assumes "map_of (fst sample_earth_handle) k = Some (SLong n)"
  shows "getitem 1 sample_api (sample_message sample_earth_handle) k = Inr (PyLong n)"
  using assms
  by (simp add: getitem_body_def sample_api_def sample_message_def sample_type_def sample_size_def)

lemma sample_earth_axis_tiny:
  "6378137 * (1000 * 10 powr (- real_of_int sample_missing_long)) < (1::real)"
proof -
  have "(10::real) powr (- real_of_int sample_missing_long) \<le> 10 powr (- 10)"
    by (rule powr_mono) (simp_all add: sample_missing_long_def)
  also have "(10::real) powr (- 10) = 1 / 10 ^ 10"
    by (simp add: powr_neg_numeral)
  finally show ?thesis by simp
qed

text \<open>
  C5. The scale factor of an oblate earth is claimed to be 1 when the key of the scale
  factor holds the missing value. With both scale factors equal to the missing value the
  major axis 6378137 comes out multiplied by \<open>1000 * 10 powr (- missing)\<close>, which is less
  than a metre: \<^verbatim>\<open>is not\<close> compares the integer that \<^verbatim>\<open>self[...]\<close> has just created
  with the one stored in \<^verbatim>\<open>self.missingvalue_int\<close>, two objects.
\<close>

theorem earth_shape_missing_scale_not_one:
  "earth_shape (sample_message sample_earth_handle)
     (getitem 1 sample_api (sample_message sample_earth_handle)) =
   Inr (PyDouble (6378137 * (1000 * 10 powr (- real_of_int sample_missing_long))),
        PyDouble (6356752 * (1000 * 10 powr (- real_of_int sample_missing_long))))
   \<and> 6378137 * (1000 * 10 powr (- real_of_int sample_missing_long)) < (1::real)"
proof -
  let ?m = "sample_message sample_earth_handle"
  have m: "self_missingvalue_int ?m = sample_missing_long"
    by (simp add: sample_message_def)
  have sc: "earth_scale ?m (PyLong sample_missing_long) one =
      Inr (PyDouble (1000 * 10 powr (- real_of_int sample_missing_long)))" for one
    using earth_scale_sentinel [of ?m one] sample_missing_long_large by (simp add: m)
  have k: "has_key ?m ''scaleFactorOfMajorAxisOfOblateSpheroidEarth''"
    by (simp add: has_key_def sample_message_def sample_keys_def sample_earth_handle_def
        ignored_names_def ignored_types_def sample_type_def)
  have g1: "getitem 1 sample_api ?m ''scaleFactorOfMajorAxisOfOblateSpheroidEarth''
              = Inr (PyLong sample_missing_long)"
    by (rule sample_earth_getitem) (simp add: sample_earth_handle_def)
  have g2: "getitem 1 sample_api ?m ''scaleFactorOfMinorAxisOfOblateSpheroidEarth''
              = Inr (PyLong sample_missing_long)"
    by (rule sample_earth_getitem) (simp add: sample_earth_handle_def)
  have g3: "getitem 1 sample_api ?m ''shapeOfTheEarth'' = Inr (PyLong 3)"
    by (rule sample_earth_getitem) (simp add: sample_earth_handle_def)
  have g4: "getitem 1 sample_api ?m ''scaledValueOfMajorAxisOfOblateSpheroidEarth''
              = Inr (PyLong 6378137)"
    by (rule sample_earth_getitem) (simp add: sample_earth_handle_def)
  have g5: "getitem 1 sample_api ?m ''scaledValueOfMinorAxisOfOblateSpheroidEarth''
              = Inr (PyLong 6356752)"
    by (rule sample_earth_getitem) (simp add: sample_earth_handle_def)
  have "earth_shape ?m (getitem 1 sample_api ?m) =
      Inr (PyDouble (6378137 * (1000 * 10 powr (- real_of_int sample_missing_long))),
           PyDouble (6356752 * (1000 * 10 powr (- real_of_int sample_missing_long))))"
    unfolding earth_shape_def earth_scales_def shape_is_def if_m_def
    by (simp only: k g1 g2 g3 g4 g5 sc if_True bnd_Inr) (simp add: py_eq_long_def py_mul_def)
  with sample_earth_axis_tiny show ?thesis by blast
qed

subsection \<open>Latitudes and longitudes\<close>

lemma mesh_set_x: "0 < n \<Longrightarrow> set (concat (replicate n xs)) = set xs"
  by (cases n) auto

lemma mesh_set_y: "0 < n \<Longrightarrow> set (concat (map (replicate n) ys)) = set ys"
  by (induction ys) auto

lemma grid_in_string [simp]:
  "self_get ''typeOfGrid'' = Inr (PyString g) \<Longrightarrow> grid_in self_get names = Inr (g \<in> set names)"
  by (induction names) (auto simp: grid_in_def py_eq_str_def list_ex_iff)

lemma grid_is_string [simp]:
  "self_get ''typeOfGrid'' = Inr (PyString g) \<Longrightarrow> grid_is self_get name = Inr (g = name)"
  by (simp add: grid_is_def py_eq_str_def)

lemma if_m_Inr [simp]: "if_m (Inr b) t e = (if b then t else e)"
  by (simp add: if_m_def)

lemma if_m_Inl [simp]: "if_m (Inl x) t e = Inl x"
  by (simp add: if_m_def)

lemma latlons_regular_value:
  assumes "earth_shape self (getitem depth api self) = Inr (a, b)"
    and "getitem depth api self ''typeOfGrid'' = Inr (PyString g)"
    and "g = ''regular_gg'' \<or> g = ''regular_ll''"
    and "getitem depth api self ''distinctLongitudes'' = Inr (PyArray (NdDouble (A1 lons)))"
    and "getitem depth api self ''distinctLatitudes'' = Inr (PyArray (NdDouble (A1 lats)))"
  shows "latlons depth api pyproj self =
    Inr ((NdDouble (A2 (map (replicate (length lons)) lats)), NdDouble (A2 (replicate (length lats) lons))),
         self\<lparr>self_projparams := Some [''a'' \<mapsto> a, ''b'' \<mapsto> b, ''proj'' \<mapsto> PyString ''cyl'']\<rparr>)"
  using assms
  by (auto simp: latlons_def latlons_body_def latlons_regular_def meshgrid_def nd_ndim_def nd_size_def
      nd_mesh_x_def nd_mesh_y_def)

text \<open>
  C9, as amended. For a message whose grid type reads as \<^verbatim>\<open>regular_gg\<close> or
  \<^verbatim>\<open>regular_ll\<close>, whose earth shape \<^verbatim>\<open>latlons\<close> derives without an exception and whose
  distinct latitudes and longitudes read as vectors of floats, \<^verbatim>\<open>latlons\<close> returns the
  mesh of the two vectors: one row per latitude and one column per longitude, the cell
  \<open>(j, i)\<close> holding latitude \<open>j\<close> and longitude \<open>i\<close>, so that the minimum and maximum of
  each array are those of its vector when neither vector is empty; and it stores the
  projection \<^verbatim>\<open>cyl\<close> in \<^verbatim>\<open>projparams\<close>, with the two axes of the earth.
\<close>

theorem latlons_regular_mesh:
  assumes "earth_shape self (getitem depth api self) = Inr (a, b)"
    and "getitem depth api self ''typeOfGrid'' = Inr (PyString g)"
    and "g = ''regular_gg'' \<or> g = ''regular_ll''"
    and "getitem depth api self ''distinctLongitudes'' = Inr (PyArray (NdDouble (A1 lons)))"
    and "getitem depth api self ''distinctLatitudes'' = Inr (PyArray (NdDouble (A1 lats)))"
  shows "\<exists>latrows lonrows.
     latlons depth api pyproj self =
       Inr ((NdDouble (A2 latrows), NdDouble (A2 lonrows)),
            self\<lparr>self_projparams := Some [''a'' \<mapsto> a, ''b'' \<mapsto> b, ''proj'' \<mapsto> PyString ''cyl'']\<rparr>) \<and>
     length latrows = length lats \<and> length lonrows = length lats \<and>
     (\<forall>j < length lats. length (latrows ! j) = length lons \<and> length (lonrows ! j) = length lons \<and>
        (\<forall>i < length lons. latrows ! j ! i = lats ! j \<and> lonrows ! j ! i = lons ! i)) \<and>
     (lats \<noteq> [] \<and> lons \<noteq> [] \<longrightarrow>
        Min (set (concat latrows)) = Min (set lats) \<and> Max (set (concat latrows)) = Max (set lats) \<and>
        Min (set (concat lonrows)) = Min (set lons) \<and> Max (set (concat lonrows)) = Max (set lons))"
proof (intro exI conjI)
  show "latlons depth api pyproj self =
    Inr ((NdDouble (A2 (map (replicate (length lons)) lats)), NdDouble (A2 (replicate (length lats) lons))),
         self\<lparr>self_projparams := Some [''a'' \<mapsto> a, ''b'' \<mapsto> b, ''proj'' \<mapsto> PyString ''cyl'']\<rparr>)"
    by (rule latlons_regular_value [OF assms])
qed (auto simp: mesh_set_x mesh_set_y)

text \<open>
  C10, as amended. For a message whose grid type reads as
  \<^verbatim>\<open>equatorial_azimuthal_equidistant\<close> or \<^verbatim>\<open>lambert_azimuthal_equal_area\<close>,
  \<^verbatim>\<open>latlons\<close> never returns: every run ends in an exception. When the earth shape is
  derived, the keys before the mesh are read and divided, and the projection library
  builds the projection and maps the first grid point, the exception is the
  \<^verbatim>\<open>TypeError\<close> of \<^verbatim>\<open>np.arange\<close> on the unassigned \<^verbatim>\<open>nx\<close>, which is \<^verbatim>\<open>None\<close>.
\<close>

theorem latlons_azimuthal_never_returns:
  assumes "getitem depth api self ''typeOfGrid'' = Inr (PyString g)"
    and "g = ''equatorial_azimuthal_equidistant'' \<or> g = ''lambert_azimuthal_equal_area''"
  shows "(\<exists>e. latlons depth api pyproj self = Inl e) \<and>
     (\<forall>a b lat_0 lon_0 dx dy lat1 lon1 pj llcrnr.
        earth_shape self (getitem depth api self) = Inr (a, b) \<longrightarrow>
        bnd (getitem depth api self ''standardParallel'') (\<lambda>v. py_div_float v (10 ^ 6)) = Inr lat_0 \<longrightarrow>
        bnd (getitem depth api self ''centralLongitude'') (\<lambda>v. py_div_float v (10 ^ 6)) = Inr lon_0 \<longrightarrow>
        bnd (getitem depth api self ''Dx'') (\<lambda>v. py_div_float v (10 ^ 3)) = Inr dx \<longrightarrow>
        bnd (getitem depth api self ''Dy'') (\<lambda>v. py_div_float v (10 ^ 3)) = Inr dy \<longrightarrow>
        getitem depth api self ''latitudeOfFirstGridPointInDegrees'' = Inr lat1 \<longrightarrow>
        getitem depth api self ''longitudeOfFirstGridPointInDegrees'' = Inr lon1 \<longrightarrow>
        Proj pyproj [''a'' \<mapsto> a, ''b'' \<mapsto> b, ''lat_0'' \<mapsto> PyDouble lat_0, ''lon_0'' \<mapsto> PyDouble lon_0,
           ''proj'' \<mapsto> PyString (if g = ''equatorial_azimuthal_equidistant'' then ''aeqd'' else ''laea'')]
          = Inr pj \<longrightarrow>
        forward pyproj pj lon1 lat1 = Inr llcrnr \<longrightarrow>
        raises_TypeError (latlons depth api pyproj self))"
proof -
  have az: "latlons_azimuthal pyproj sg proj pp \<noteq> Inr r" for sg proj pp r
    by (auto simp: latlons_azimuthal_def bnd_eq_Inr unassigned_def axis_def arange_def
        as_c_long_def Let_def)
  have body: "latlons depth api pyproj self =
      bnd (earth_shape self (getitem depth api self)) (\<lambda>(a, b).
        bnd (latlons_azimuthal pyproj (getitem depth api self)
               (if g = ''equatorial_azimuthal_equidistant'' then ''aeqd'' else ''laea'') [''a'' \<mapsto> a, ''b'' \<mapsto> b])
          (\<lambda>(lats, lons, projparams). Inr ((lats, lons), self\<lparr>self_projparams := Some projparams\<rparr>)))"
    using assms by (auto simp: latlons_def latlons_body_def Let_def intro!: arg_cong [where f = "bnd _"])
  have "\<exists>e. latlons depth api pyproj self = Inl e"
  proof (cases "latlons depth api pyproj self")
    case (Inr r)
    then show ?thesis unfolding body using az by (auto simp: bnd_eq_Inr)
  qed simp
  moreover have "raises_TypeError (latlons depth api pyproj self)"
    if "earth_shape self (getitem depth api self) = Inr (a, b)"
      "bnd (getitem depth api self ''standardParallel'') (\<lambda>v. py_div_float v (10 ^ 6)) = Inr lat_0"
      "bnd (getitem depth api self ''centralLongitude'') (\<lambda>v. py_div_float v (10 ^ 6)) = Inr lon_0"
      "bnd (getitem depth api self ''Dx'') (\<lambda>v. py_div_float v (10 ^ 3)) = Inr dx"
      "bnd (getitem depth api self ''Dy'') (\<lambda>v. py_div_float v (10 ^ 3)) = Inr dy"
      "getitem depth api self ''latitudeOfFirstGridPointInDegrees'' = Inr lat1"
      "getitem depth api self ''longitudeOfFirstGridPointInDegrees'' = Inr lon1"
      "Proj pyproj [''a'' \<mapsto> a, ''b'' \<mapsto> b, ''lat_0'' \<mapsto> PyDouble lat_0, ''lon_0'' \<mapsto> PyDouble lon_0,
           ''proj'' \<mapsto> PyString (if g = ''equatorial_azimuthal_equidistant'' then ''aeqd'' else ''laea'')]
          = Inr pj"
      "forward pyproj pj lon1 lat1 = Inr llcrnr"
    for a b lat_0 lon_0 dx dy lat1 lon1 pj llcrnr
    unfolding body using that
    by (cases llcrnr)
       (simp add: latlons_azimuthal_def unassigned_def axis_def arange_def as_c_long_def
          raises_TypeError_def)
  ultimately show ?thesis by blast
qed


subsection \<open>The examples: reading keys of the sample decoder\<close>

lemma sample_getitem_long:
  "map_of (fst h) k = Some (SLong n) \<Longrightarrow> getitem (Suc d) sample_api (sample_message h) k = Inr (PyLong n)"
  by (simp add: getitem_body_def sample_api_def sample_message_def sample_type_def sample_size_def)

lemma sample_getitem_double:
  "map_of (fst h) k = Some (SDouble x) \<Longrightarrow> getitem (Suc d) sample_api (sample_message h) k = Inr (PyDouble x)"
  by (simp add: getitem_body_def sample_api_def sample_message_def sample_type_def sample_size_def)

lemma sample_getitem_string:
  "map_of (fst h) k = Some (SString x) \<Longrightarrow> getitem (Suc d) sample_api (sample_message h) k = Inr (PyString (rstrip x))"
  by (simp add: getitem_body_def sample_api_def sample_message_def sample_type_def sample_size_def)

lemma sample_getitem_doubles:
  "map_of (fst h) k = Some (SDoubles xs) \<Longrightarrow> length xs \<noteq> 1 \<Longrightarrow> k \<noteq> ''values'' \<Longrightarrow>
   ''jPointsAreConsecutive'' \<notin> set (sample_keys h) \<Longrightarrow>
   getitem (Suc d) sample_api (sample_message h) k = Inr (PyArray (NdDouble (A1 xs)))"
  by (simp add: getitem_body_def storage_order_def has_key_def sample_api_def sample_message_def
      sample_type_def sample_size_def)

lemma sample_getitem_longs:
  "map_of (fst h) k = Some (SLongs xs) \<Longrightarrow> length xs \<noteq> 1 \<Longrightarrow> k \<noteq> ''values'' \<Longrightarrow>
   ''jPointsAreConsecutive'' \<notin> set (sample_keys h) \<Longrightarrow>
   getitem (Suc d) sample_api (sample_message h) k = Inr (PyArray (NdLong (A1 xs)))"
  by (simp add: getitem_body_def storage_order_def has_key_def sample_api_def sample_message_def
      sample_type_def sample_size_def)

lemma earth_shape_zero:
  assumes "\<not> has_key self ''scaleFactorOfMajorAxisOfOblateSpheroidEarth''"
    and "self_get ''shapeOfTheEarth'' = Inr (PyLong 0)"
  shows "earth_shape self self_get = Inr (PyDouble 6367470, PyDouble 6367470)"
  using assms by (simp add: earth_shape_def earth_scales_def shape_is_def py_eq_long_def)

theorem latlons_regular_mesh_witness:
  "\<exists>latrows lonrows.
     latlons 1 sample_api sample_pyproj (sample_message sample_regular_handle) =
       Inr ((NdDouble (A2 latrows), NdDouble (A2 lonrows)),
            (sample_message sample_regular_handle)\<lparr>self_projparams :=
               Some [''a'' \<mapsto> PyDouble 6367470, ''b'' \<mapsto> PyDouble 6367470, ''proj'' \<mapsto> PyString ''cyl'']\<rparr>) \<and>
     length latrows = 2 \<and> length (latrows ! 0) = 3 \<and> latrows ! 1 ! 2 = 10 \<and> lonrows ! 1 ! 2 = 3 \<and>
     Min (set (concat latrows)) = 10 \<and> Max (set (concat latrows)) = 20 \<and>
     Min (set (concat lonrows)) = 0 \<and> Max (set (concat lonrows)) = 3"
proof -
  let ?m = "sample_message sample_regular_handle"
  have nk: "\<not> has_key ?m ''scaleFactorOfMajorAxisOfOblateSpheroidEarth''"
    by (simp add: has_key_def sample_message_def sample_keys_def sample_regular_handle_def
        ignored_names_def ignored_types_def sample_type_def)
  have nj: "''jPointsAreConsecutive'' \<notin> set (sample_keys sample_regular_handle)"
    by (simp add: sample_keys_def sample_regular_handle_def ignored_names_def ignored_types_def
        sample_type_def)
  have e: "earth_shape ?m (getitem 1 sample_api ?m) = Inr (PyDouble 6367470, PyDouble 6367470)"
    by (rule earth_shape_zero [OF nk], simp only: One_nat_def, rule sample_getitem_long)
       (simp add: sample_regular_handle_def)
  have g: "getitem 1 sample_api ?m ''typeOfGrid'' = Inr (PyString ''regular_ll'')"
    using sample_getitem_string [of sample_regular_handle "''typeOfGrid''" "''regular_ll''" 0]
    by (simp add: sample_regular_handle_def rstrip_def is_space_def)
  have lo: "getitem 1 sample_api ?m ''distinctLongitudes'' = Inr (PyArray (NdDouble (A1 [0, 1.5, 3])))"
    using sample_getitem_doubles [of sample_regular_handle "''distinctLongitudes''" "[0, 1.5, 3]" 0] nj
    by (simp add: sample_regular_handle_def)
  have la: "getitem 1 sample_api ?m ''distinctLatitudes'' = Inr (PyArray (NdDouble (A1 [20, 10])))"
    using sample_getitem_doubles [of sample_regular_handle "''distinctLatitudes''" "[20, 10]" 0] nj
    by (simp add: sample_regular_handle_def)
  from latlons_regular_mesh [OF e g _ lo la, of sample_pyproj]
  obtain latrows lonrows where
    r: "latlons 1 sample_api sample_pyproj ?m =
       Inr ((NdDouble (A2 latrows), NdDouble (A2 lonrows)),
            ?m\<lparr>self_projparams :=
               Some [''a'' \<mapsto> PyDouble 6367470, ''b'' \<mapsto> PyDouble 6367470, ''proj'' \<mapsto> PyString ''cyl'']\<rparr>)"
    and l: "length latrows = length [20, 10::real]"
    and n: "\<forall>j < length [20, 10::real]. length (latrows ! j) = length [0, 1.5, 3::real] \<and>
        length (lonrows ! j) = length [0, 1.5, 3::real] \<and>
        (\<forall>i < length [0, 1.5, 3::real]. latrows ! j ! i = [20, 10] ! j \<and> lonrows ! j ! i = [0, 1.5, 3] ! i)"
    and mm: "Min (set (concat latrows)) = Min (set [20, 10]) \<and> Max (set (concat latrows)) = Max (set [20, 10]) \<and>
        Min (set (concat lonrows)) = Min (set [0, 1.5, 3]) \<and> Max (set (concat lonrows)) = Max (set [0, 1.5, 3])"
    by auto
  from n have "length (latrows ! 0) = 3" "latrows ! 1 ! 2 = 10" "lonrows ! 1 ! 2 = 3" by auto
  with r l mm show ?thesis by (intro exI [of _ latrows] exI [of _ lonrows]) simp
qed

theorem latlons_azimuthal_never_returns_witness:
  "raises_TypeError (latlons 1 sample_api sample_pyproj (sample_message sample_azimuthal_handle))"
proof -
  let ?m = "sample_message sample_azimuthal_handle"
  have nk: "\<not> has_key ?m ''scaleFactorOfMajorAxisOfOblateSpheroidEarth''"
    by (simp add: has_key_def sample_message_def sample_keys_def sample_azimuthal_handle_def
        ignored_names_def ignored_types_def sample_type_def)
  have e: "earth_shape ?m (getitem 1 sample_api ?m) = Inr (PyDouble 6367470, PyDouble 6367470)"
    by (rule earth_shape_zero [OF nk], simp only: One_nat_def, rule sample_getitem_long)
       (simp add: sample_azimuthal_handle_def)
  have g: "getitem 1 sample_api ?m ''typeOfGrid'' = Inr (PyString ''lambert_azimuthal_equal_area'')"
    using sample_getitem_string [of sample_azimuthal_handle "''typeOfGrid''" "''lambert_azimuthal_equal_area''" 0]
    by (simp add: sample_azimuthal_handle_def rstrip_def is_space_def)
  have k1: "bnd (getitem 1 sample_api ?m ''standardParallel'') (\<lambda>v. py_div_float v (10 ^ 6)) = Inr 52"
    using sample_getitem_long [of sample_azimuthal_handle "''standardParallel''" 52000000 0]
    by (simp add: sample_azimuthal_handle_def py_div_float_def as_c_double_def)
  have k2: "bnd (getitem 1 sample_api ?m ''centralLongitude'') (\<lambda>v. py_div_float v (10 ^ 6)) = Inr 10"
    using sample_getitem_long [of sample_azimuthal_handle "''centralLongitude''" 10000000 0]
    by (simp add: sample_azimuthal_handle_def py_div_float_def as_c_double_def)
  have k3: "bnd (getitem 1 sample_api ?m ''Dx'') (\<lambda>v. py_div_float v (10 ^ 3)) = Inr 5000"
    using sample_getitem_long [of sample_azimuthal_handle "''Dx''" 5000000 0]
    by (simp add: sample_azimuthal_handle_def py_div_float_def as_c_double_def)
  have k4: "bnd (getitem 1 sample_api ?m ''Dy'') (\<lambda>v. py_div_float v (10 ^ 3)) = Inr 5000"
    using sample_getitem_long [of sample_azimuthal_handle "''Dy''" 5000000 0]
    by (simp add: sample_azimuthal_handle_def py_div_float_def as_c_double_def)
  have k5: "getitem 1 sample_api ?m ''latitudeOfFirstGridPointInDegrees'' = Inr (PyDouble 30)"
    using sample_getitem_double [of sample_azimuthal_handle "''latitudeOfFirstGridPointInDegrees''" 30 0]
    by (simp add: sample_azimuthal_handle_def)
  have k6: "getitem 1 sample_api ?m ''longitudeOfFirstGridPointInDegrees'' = Inr (PyDouble 5)"
    using sample_getitem_double [of sample_azimuthal_handle "''longitudeOfFirstGridPointInDegrees''" 5 0]
    by (simp add: sample_azimuthal_handle_def)
  have p: "Proj sample_pyproj pp = Inr ()" for pp by (simp add: sample_pyproj_def)
  have f: "forward sample_pyproj () (PyDouble 5) (PyDouble 30) = Inr (5, 30)"
    by (simp add: forward_def sample_pyproj_def as_c_double_def)
  from latlons_azimuthal_never_returns [OF g, of sample_pyproj] e k1 k2 k3 k4 k5 k6 p f
  show ?thesis by blast
qed

subsection \<open>The values of a message\<close>

lemma nd_reshape_scan_ndim [simp]: "nd_ndim (nd_reshape_scan js is al d) = nd_ndim d"
  by (auto simp: nd_reshape_scan_def nd_ndim_def split: ndarray.splits nd.splits)

lemma scan_and_mask_result:
  assumes "scan_and_mask self sg d = Inr v"
  shows "value_ndim v = nd_ndim d \<and>
         (is_masked v \<longleftrightarrow> nd_ndim d = 2 \<and> has_key self ''missingValue'' \<and>
            scan_flag sg ''numberOfMissing'' = Inr True) \<and>
         (is_masked v \<longrightarrow> (\<exists>data value. v = PyMasked data value \<and> sg ''missingValue'' = Inr value))"
  using assms
  by (auto simp: scan_and_mask_def bnd_eq_Inr is_masked_def value_ndim_def split: if_splits)

lemma reshape_mask_result:
  assumes "reshape_mask api self sg d = Inr v" and "nd_ndim d = 1"
  shows "(is_masked v \<longleftrightarrow> value_ndim v = 2 \<and> has_key self ''missingValue'' \<and>
            scan_flag sg ''numberOfMissing'' = Inr True) \<and>
         (is_masked v \<longrightarrow> (\<exists>data value. v = PyMasked data value \<and> sg ''missingValue'' = Inr value))"
proof (cases "has_key self ''Ni'' \<and> has_key self ''Nj''")
  case False
  with assms show ?thesis
    by (auto simp: reshape_mask_def is_masked_def value_ndim_def split: if_splits)
next
  case True
  with assms obtain d' where "scan_and_mask self sg d' = Inr v"
    by (auto simp: reshape_mask_def bnd_eq_Inr split: if_splits)
  from scan_and_mask_result [OF this] show ?thesis by auto
qed

text \<open>
  Whenever \<^verbatim>\<open>self['values']\<close> returns, the result is a masked array exactly when it is
  two-dimensional, the message has the key \<^verbatim>\<open>missingValue\<close> and \<^verbatim>\<open>numberOfMissing\<close>
  reads as a true value; the mask is then keyed on the value of \<^verbatim>\<open>missingValue\<close>. A
  result that is not two-dimensional is never masked: the statement that masks is inside
  \<^verbatim>\<open>if datarr.ndim == 2:\<close>.
\<close>

lemma getitem_values_masked:
  assumes "getitem (Suc depth) api self ''values'' = Inr v"
  shows "(is_masked v \<longleftrightarrow> value_ndim v = 2 \<and> has_key self ''missingValue'' \<and>
            scan_flag (getitem depth api self) ''numberOfMissing'' = Inr True) \<and>
         (is_masked v \<longrightarrow>
            (\<exists>data value. v = PyMasked data value \<and> getitem depth api self ''missingValue'' = Inr value))"
proof -
  from assms consider
    (scalar) "v = PyNone \<or> (\<exists>n. v = PyLong n) \<or> (\<exists>x. v = PyDouble x) \<or> (\<exists>s. v = PyString s)"
  | (array) d where "reshape_mask api self (getitem depth api self) d = Inr v" "nd_ndim d = 1"
    by (auto simp: getitem_body_def bnd_eq_Inr nd_ndim_def split: prod.splits if_splits)
  then show ?thesis
  proof cases
    case scalar
    then show ?thesis by (auto simp: is_masked_def value_ndim_def)
  next
    case array
    from reshape_mask_result [OF array] show ?thesis .
  qed
qed

subsection \<open>Reduced grids\<close>


lemma linspace_values_length [simp]: "length (linspace_values a b n) = n"
  by (simp add: linspace_values_def)

lemma linspace_values_nth:
  "i < n \<Longrightarrow> linspace_values a b n ! i = a + real i * ((b - a) / real (n - 1))"
  by (auto simp: linspace_values_def)

lemma linspace_values_ends:
  "2 \<le> n \<Longrightarrow> linspace_values a b n ! 0 = a \<and> linspace_values a b n ! (n - 1) = b"
  by (auto simp: linspace_values_nth)










subsection \<open>The examples for the values and for reduced grids\<close>

lemmas sample_defs = sample_api_def sample_message_def sample_type_def sample_size_def
  sample_keys_def ignored_names_def ignored_types_def

lemma sample_reduced_values_raw:
  "getitem 2 sample_api ((sample_message sample_reduced_handle)\<lparr>self_expand_reduced := False\<rparr>) ''values''
     = Inr (PyArray (NdDouble (A1 [1, 9999, 3, 4, 5, 6])))"
  by (simp add: numeral_2_eq_2 getitem_body_def storage_order_def has_key_def reshape_mask_def
      scan_and_mask_def nd_ndim_def py_ne_long_def py_eq_long_def py_startswith_def startswith_def
      rstrip_def is_space_def as_c_double_def
      sample_defs sample_reduced_handle_def sample_missing_long_def)


lemmas getitem_defs = getitem_body_def storage_order_def has_key_def rstrip_def is_space_def

lemma sample_regular_values:
  "getitem 2 sample_api (sample_message sample_regular_handle) ''values''
     = Inr (PyMasked (NdDouble (A2 [[4, 5, 6], [1, 2, 9999]])) (PyDouble 9999))"
  by (simp add: numeral_2_eq_2 getitem_defs reshape_mask_def
      scan_and_mask_def scan_flag_def py_truth_def nd_ndim_def py_ne_long_def py_eq_long_def
      py_startswith_def startswith_def as_c_long_def nd_set_shape_def set_shape_def infer_dim_def
      rows_of_def upt_rec nd_reshape_scan_def reshape_scan_def flip_rows_def
      sample_defs sample_regular_handle_def sample_missing_long_def)

lemma sample_regular_values_masked:
  "getitem 2 sample_api (sample_message sample_regular_handle) ''values''
     = Inr (PyMasked (NdDouble (A2 [[4, 5, 6], [1, 2, 9999]])) (PyDouble 9999))
   \<and> has_key (sample_message sample_regular_handle) ''missingValue''
   \<and> scan_flag (getitem 1 sample_api (sample_message sample_regular_handle)) ''numberOfMissing''
       = Inr True
   \<and> getitem 1 sample_api (sample_message sample_regular_handle) ''missingValue''
       = Inr (PyDouble 9999)"
proof -
  have v: "getitem (Suc 1) sample_api (sample_message sample_regular_handle) ''values''
     = Inr (PyMasked (NdDouble (A2 [[4, 5, 6], [1, 2, 9999]])) (PyDouble 9999))"
    using sample_regular_values by (simp add: numeral_2_eq_2)
  have "is_masked (PyMasked (NdDouble (A2 [[4, 5, 6], [1, 2, 9999]])) (PyDouble 9999))"
    by (simp add: is_masked_def)
  with getitem_values_masked [OF v] sample_regular_values show ?thesis by auto
qed

text \<open>
  C4. The values are claimed to be masked whenever the message has a missing value and
  reports a nonzero number of missing points, as the documentation of \<^verbatim>\<open>__getitem__\<close>
  says. On a reduced grid that is not expanded the message has the key \<^verbatim>\<open>missingValue\<close>
  and reports one missing point, one of the values is the missing value, and the values
  come back as a plain vector, not masked.
\<close>

theorem getitem_values_unmasked_with_missing:
  "has_key ((sample_message sample_reduced_handle)\<lparr>self_expand_reduced := False\<rparr>) ''missingValue''
   \<and> getitem 1 sample_api ((sample_message sample_reduced_handle)\<lparr>self_expand_reduced := False\<rparr>)
       ''numberOfMissing'' = Inr (PyLong 1)
   \<and> getitem 1 sample_api ((sample_message sample_reduced_handle)\<lparr>self_expand_reduced := False\<rparr>)
       ''missingValue'' = Inr (PyDouble 9999)
   \<and> getitem 2 sample_api ((sample_message sample_reduced_handle)\<lparr>self_expand_reduced := False\<rparr>)
       ''values'' = Inr (PyArray (NdDouble (A1 [1, 9999, 3, 4, 5, 6])))"
  using sample_reduced_values_raw
  by (simp add: getitem_defs sample_defs sample_reduced_handle_def)






text \<open>
  The claim C9 as stated fails on a regular grid whose earth has the shape 4, which
  \<^verbatim>\<open>latlons\<close> does not know: it raises before it looks at the grid.
\<close>

theorem latlons_regular_unknown_earth:
  "getitem 1 sample_api (sample_message sample_unknown_earth_handle) ''typeOfGrid''
     = Inr (PyString ''regular_ll'')
   \<and> latlons 1 sample_api sample_pyproj (sample_message sample_unknown_earth_handle)
       = Inl (ValueError ''unknown shape of the earth flag'')"
proof -
  let ?m = "sample_message sample_unknown_earth_handle"
  have g: "getitem 1 sample_api ?m ''typeOfGrid'' = Inr (PyString ''regular_ll'')"
    by (simp add: getitem_defs sample_defs sample_unknown_earth_handle_def)
  have k: "\<not> has_key ?m ''scaleFactorOfMajorAxisOfOblateSpheroidEarth''"
    by (simp add: has_key_def sample_defs sample_unknown_earth_handle_def)
  have z: "getitem 1 sample_api ?m ''shapeOfTheEarth'' = Inr (PyLong 4)"
    by (simp add: getitem_defs sample_defs sample_unknown_earth_handle_def)
  have "earth_shape ?m (getitem 1 sample_api ?m) = Inl (ValueError ''unknown shape of the earth flag'')"
    unfolding earth_shape_def earth_scales_def shape_is_def z using k
    by (simp add: py_eq_long_def)
  then have "latlons 1 sample_api sample_pyproj ?m = Inl (ValueError ''unknown shape of the earth flag'')"
    by (simp add: latlons_def latlons_body_def)
  with g show ?thesis by blast
qed

text \<open>
  The claim C10 as stated fails in the exception it names: on an azimuthal equidistant
  grid \<^verbatim>\<open>latlons\<close> raises \<^verbatim>\<open>TypeError\<close>, not an error for an unbound variable.
\<close>

theorem latlons_azimuthal_type_error:
  "getitem 1 sample_api (sample_message sample_equidistant_handle) ''typeOfGrid''
     = Inr (PyString ''equatorial_azimuthal_equidistant'')
   \<and> raises_TypeError
       (latlons 1 sample_api sample_pyproj (sample_message sample_equidistant_handle))
   \<and> latlons 1 sample_api sample_pyproj (sample_message sample_equidistant_handle)
       \<noteq> Inl (UnboundLocalError ''nx'')"
proof -
  let ?m = "sample_message sample_equidistant_handle"
  let ?sg = "getitem 1 sample_api ?m"
  have g: "?sg ''typeOfGrid'' = Inr (PyString ''equatorial_azimuthal_equidistant'')"
    by (simp add: getitem_defs sample_defs sample_equidistant_handle_def)
  have k: "\<not> has_key ?m ''scaleFactorOfMajorAxisOfOblateSpheroidEarth''"
    by (simp add: has_key_def sample_defs sample_equidistant_handle_def)
  have z: "?sg ''shapeOfTheEarth'' = Inr (PyLong 0)"
    by (simp add: getitem_defs sample_defs sample_equidistant_handle_def)
  have e: "earth_shape ?m ?sg = Inr (PyDouble 6367470, PyDouble 6367470)"
    by (rule earth_shape_zero [where self_get = "?sg", OF k z])
  have reads:
    "?sg ''standardParallel'' = Inr (PyLong 0)"
    "?sg ''centralLongitude'' = Inr (PyLong 10000000)"
    "?sg ''Dx'' = Inr (PyLong 5000000)"
    "?sg ''Dy'' = Inr (PyLong 5000000)"
    "?sg ''latitudeOfFirstGridPointInDegrees'' = Inr (PyDouble (- 10))"
    "?sg ''longitudeOfFirstGridPointInDegrees'' = Inr (PyDouble 5)"
    by (simp_all add: getitem_defs sample_defs sample_equidistant_handle_def)
  have "latlons 1 sample_api sample_pyproj ?m = Inl (TypeError ''an integer is required'')"
    using g reads unfolding latlons_def latlons_body_def e
    by (simp add: latlons_azimuthal_def py_div_float_def as_c_double_def sample_pyproj_def
        forward_def axis_def arange_def as_c_long_def unassigned_def)
  with g show ?thesis by (simp add: raises_TypeError_def)
qed

end
